theory Spec2Isabelle
  imports Complex_Main
begin

section \<open>Strings and numbers of the host language\<close>

text \<open>
  A string of the program is a sequence of UTF-16 code units; a code unit is modelled as a
  natural number. Only equality of code units and membership in fixed character classes are
  ever used, so the bound \<open>< 65536\<close> plays no role. The messages the actions return are
  constants of the program and are kept as HOL string literals.
\<close>

type_synonym jsstring = "nat list"

definition js :: "string \<Rightarrow> jsstring" where
  "js s = map of_char s"

text \<open>
  The characters \<open>String.prototype.trim\<close> removes and \<open>\s\<close> matches: the white space
  and line terminator code points of the language standard.
\<close>

definition is_space :: "nat \<Rightarrow> bool" where
  "is_space c \<longleftrightarrow>
     c = 9 \<or> c = 10 \<or> c = 11 \<or> c = 12 \<or> c = 13 \<or> c = 32 \<or> c = 160 \<or> c = 5760 \<or>
     (8192 \<le> c \<and> c \<le> 8202) \<or> c = 8232 \<or> c = 8233 \<or> c = 8239 \<or> c = 8287 \<or>
     c = 12288 \<or> c = 65279"

definition trim :: "jsstring \<Rightarrow> jsstring" where
  "trim s = rev (dropWhile is_space (rev (dropWhile is_space s)))"

text \<open>\<open>!s || s.trim() === ''\<close> for a string \<open>s\<close>.\<close>

definition blank :: "jsstring \<Rightarrow> bool" where
  "blank s \<longleftrightarrow> s = [] \<or> trim s = []"

text \<open>
  The regular expression
  \<open>/^[0-9a-f]{8}-[0-9a-f]{4}-[0-9a-f]{4}-[0-9a-f]{4}-[0-9a-f]{12}$/i\<close>:
  groups of hexadecimal digits of the given lengths, separated by single hyphens, and
  nothing else. Under the flag \<open>i\<close> the class \<open>[0-9a-f]\<close> matches the digits and the
  letters a to f in either case.
\<close>

definition is_hex :: "nat \<Rightarrow> bool" where
  "is_hex c \<longleftrightarrow> (48 \<le> c \<and> c \<le> 57) \<or> (97 \<le> c \<and> c \<le> 102) \<or> (65 \<le> c \<and> c \<le> 70)"

fun hex_groups :: "nat list \<Rightarrow> jsstring \<Rightarrow> bool" where
  "hex_groups [] s = False"
| "hex_groups [n] s = (length s = n \<and> list_all is_hex s)"
| "hex_groups (n # m # ns) s =
     (length (take n s) = n \<and> list_all is_hex (take n s) \<and>
      (case drop n s of [] \<Rightarrow> False | c # rest \<Rightarrow> c = 45 \<and> hex_groups (m # ns) rest))"

definition uuidRegex :: "jsstring \<Rightarrow> bool" where
  "uuidRegex s = hex_groups [8, 4, 4, 4, 12] s"

text \<open>
  A value of type \<open>number\<close> is a double: a finite value (always a rational), a not-a-number
  or an infinity. The program only compares numbers with \<open>0\<close> and with an array length,
  and those comparisons are exact. An argument that arrives at run time need not be a
  number at all.
\<close>

datatype jsnumber = Finite rat | NaN | PosInfinity | NegInfinity

datatype jsvalue = JNumber jsnumber | JOther

text \<open>\<open>x < 0\<close> and \<open>x >= n\<close> on numbers; every comparison with a not-a-number is false.\<close>

fun lt_zero :: "jsnumber \<Rightarrow> bool" where
  "lt_zero (Finite q) = (q < 0)"
| "lt_zero NegInfinity = True"
| "lt_zero NaN = False"
| "lt_zero PosInfinity = False"

fun ge_length :: "jsnumber \<Rightarrow> nat \<Rightarrow> bool" where
  "ge_length (Finite q) n = (of_nat n \<le> q)"
| "ge_length PosInfinity n = True"
| "ge_length NaN n = False"
| "ge_length NegInfinity n = False"

section \<open>Form data\<close>

text \<open>
  A \<open>FormData\<close> is an ordered list of named entries; an entry is a string or a file.
  \<open>get\<close> returns the first entry of a name or \<open>null\<close>, \<open>getAll\<close> every entry of it.
\<close>

datatype entry = Text jsstring | File

type_synonym formdata = "(string \<times> entry) list"

definition get :: "formdata \<Rightarrow> string \<Rightarrow> entry option" where
  "get fd name = map_of fd name"

definition getAll :: "formdata \<Rightarrow> string \<Rightarrow> entry list" where
  "getAll fd name = map snd (filter (\<lambda>kv. fst kv = name) fd)"

section \<open>The persistence and identity services\<close>

text \<open>
  The tables the actions read and write. \<open>p_options\<close> is \<open>None\<close> for a row whose
  \<open>options\<close> column is null, \<open>v_user_id\<close> is \<open>None\<close> for an anonymous vote.
\<close>

record poll =
  p_id :: jsstring
  p_user_id :: jsstring
  p_question :: jsstring
  p_options :: "jsstring list option"
  p_created_at :: jsstring

record vote =
  v_poll_id :: jsstring
  v_user_id :: "jsstring option"
  v_option_index :: jsnumber
  v_created_at :: jsstring

text \<open>
  The requests an action sends to the two services, in the order it sends them. The list
  is kept beside the tables so that the order of effects can be stated.
\<close>

datatype call =
    GetUser
  | SelectPoll jsstring
  | SelectVote jsstring jsstring
  | InsertVote jsstring
  | SelectResults jsstring
  | DeleteVotes jsstring
  | DeletePoll jsstring jsstring
  | UpdatePoll jsstring jsstring
  | InsertPoll
  | SignIn

record backend =
  polls :: "poll list"
  votes :: "vote list"
  calls :: "call list"

text \<open>
  What a request to a service may do: answer with data, answer with an error, or raise
  an exception (which the \<open>try\<close> blocks of the actions catch). A request that answers with
  an error or raises leaves the tables as they were.
\<close>

datatype fault = Works | Errors | Throws

text \<open>A reply \<open>{ data, error }\<close>: the data and whether \<open>error\<close> is set.\<close>

datatype 'a reply = Reply 'a bool | Thrown

text \<open>
  Everything an action gets from outside during one run: the answer of the identity
  service, the clock, the id the store gives a new poll, and how each request fares
  (for \<open>f_sign_in\<close>: whether the identity service accepts the credentials).
\<close>

record env =
  session :: "jsstring option reply"
  now :: jsstring
  new_id :: jsstring
  f_select_poll :: fault
  f_select_vote :: fault
  f_insert_vote :: fault
  f_select_results :: fault
  f_delete_votes :: fault
  f_delete_poll :: fault
  f_update_poll :: fault
  f_insert_poll :: fault
  f_sign_in :: fault

definition logged :: "call \<Rightarrow> backend \<Rightarrow> backend" where
  "logged c b = b\<lparr>calls := calls b @ [c]\<rparr>"

text \<open>\<open>.single()\<close> wants exactly one row, \<open>.maybeSingle()\<close> at most one.\<close>

definition single :: "'a list \<Rightarrow> 'a option reply" where
  "single rows = (case rows of [r] \<Rightarrow> Reply (Some r) False | _ \<Rightarrow> Reply None True)"

definition maybeSingle :: "'a list \<Rightarrow> 'a option reply" where
  "maybeSingle rows =
     (case rows of [] \<Rightarrow> Reply None False | [r] \<Rightarrow> Reply (Some r) False | _ \<Rightarrow> Reply None True)"

definition auth_getUser :: "env \<Rightarrow> backend \<Rightarrow> jsstring option reply \<times> backend" where
  "auth_getUser e b = (session e, logged GetUser b)"

text \<open>\<open>from("polls").select(..).eq("id", i).single()\<close>\<close>

definition select_poll :: "env \<Rightarrow> jsstring \<Rightarrow> backend \<Rightarrow> poll option reply \<times> backend" where
  "select_poll e i b =
     ((case f_select_poll e of
         Works \<Rightarrow> single (filter (\<lambda>p. p_id p = i) (polls b))
       | Errors \<Rightarrow> Reply None True
       | Throws \<Rightarrow> Thrown),
      logged (SelectPoll i) b)"

text \<open>\<open>from("votes").select("*").eq("poll_id", i).eq("user_id", u).maybeSingle()\<close>\<close>

definition select_vote ::
  "env \<Rightarrow> jsstring \<Rightarrow> jsstring \<Rightarrow> backend \<Rightarrow> vote option reply \<times> backend" where
  "select_vote e i u b =
     ((case f_select_vote e of
         Works \<Rightarrow> maybeSingle (filter (\<lambda>v. v_poll_id v = i \<and> v_user_id v = Some u) (votes b))
       | Errors \<Rightarrow> Reply None True
       | Throws \<Rightarrow> Thrown),
      logged (SelectVote i u) b)"

text \<open>\<open>from("votes").insert([row]).select()\<close>\<close>

definition insert_vote :: "env \<Rightarrow> vote \<Rightarrow> backend \<Rightarrow> vote list reply \<times> backend" where
  "insert_vote e v b =
     (case f_insert_vote e of
        Works \<Rightarrow> (Reply [v] False, logged (InsertVote (v_poll_id v)) (b\<lparr>votes := votes b @ [v]\<rparr>))
      | Errors \<Rightarrow> (Reply [] True, logged (InsertVote (v_poll_id v)) b)
      | Throws \<Rightarrow> (Thrown, logged (InsertVote (v_poll_id v)) b))"

text \<open>\<open>from("votes").select("option_index").eq("poll_id", i)\<close>\<close>

definition select_results ::
  "env \<Rightarrow> jsstring \<Rightarrow> backend \<Rightarrow> jsnumber list option reply \<times> backend" where
  "select_results e i b =
     ((case f_select_results e of
         Works \<Rightarrow> Reply (Some (map v_option_index (filter (\<lambda>v. v_poll_id v = i) (votes b)))) False
       | Errors \<Rightarrow> Reply None True
       | Throws \<Rightarrow> Thrown),
      logged (SelectResults i) b)"

text \<open>\<open>from("votes").delete().eq("poll_id", i)\<close>\<close>

definition delete_votes :: "env \<Rightarrow> jsstring \<Rightarrow> backend \<Rightarrow> unit reply \<times> backend" where
  "delete_votes e i b =
     (case f_delete_votes e of
        Works \<Rightarrow> (Reply () False,
                  logged (DeleteVotes i) (b\<lparr>votes := filter (\<lambda>v. v_poll_id v \<noteq> i) (votes b)\<rparr>))
      | Errors \<Rightarrow> (Reply () True, logged (DeleteVotes i) b)
      | Throws \<Rightarrow> (Thrown, logged (DeleteVotes i) b))"

text \<open>\<open>from("polls").delete().eq("id", i).eq("user_id", u)\<close>\<close>

definition delete_poll :: "env \<Rightarrow> jsstring \<Rightarrow> jsstring \<Rightarrow> backend \<Rightarrow> unit reply \<times> backend" where
  "delete_poll e i u b =
     (case f_delete_poll e of
        Works \<Rightarrow> (Reply () False,
                  logged (DeletePoll i u)
                    (b\<lparr>polls := filter (\<lambda>p. \<not> (p_id p = i \<and> p_user_id p = u)) (polls b)\<rparr>))
      | Errors \<Rightarrow> (Reply () True, logged (DeletePoll i u) b)
      | Throws \<Rightarrow> (Thrown, logged (DeletePoll i u) b))"

text \<open>\<open>from("polls").update({ question, options }).eq("id", i).eq("user_id", u)\<close>\<close>

definition update_poll ::
  "env \<Rightarrow> jsstring \<Rightarrow> jsstring \<Rightarrow> jsstring \<Rightarrow> jsstring list \<Rightarrow> backend \<Rightarrow> unit reply \<times> backend" where
  "update_poll e i u q os b =
     (case f_update_poll e of
        Works \<Rightarrow> (Reply () False,
                  logged (UpdatePoll i u)
                    (b\<lparr>polls := map (\<lambda>p. if p_id p = i \<and> p_user_id p = u
                                          then p\<lparr>p_question := q, p_options := Some os\<rparr> else p)
                                   (polls b)\<rparr>))
      | Errors \<Rightarrow> (Reply () True, logged (UpdatePoll i u) b)
      | Throws \<Rightarrow> (Thrown, logged (UpdatePoll i u) b))"

text \<open>\<open>from("polls").insert([row]).select()\<close>; the store assigns the id of the new row.\<close>

definition insert_poll ::
  "env \<Rightarrow> jsstring \<Rightarrow> jsstring \<Rightarrow> jsstring list \<Rightarrow> backend \<Rightarrow> poll list reply \<times> backend" where
  "insert_poll e u q os b =
     (let row = \<lparr>p_id = new_id e, p_user_id = u, p_question = q, p_options = Some os,
                 p_created_at = now e\<rparr>
      in case f_insert_poll e of
           Works \<Rightarrow> (Reply [row] False, logged InsertPoll (b\<lparr>polls := polls b @ [row]\<rparr>))
         | Errors \<Rightarrow> (Reply [] True, logged InsertPoll b)
         | Throws \<Rightarrow> (Thrown, logged InsertPoll b))"

text \<open>\<open>auth.signInWithPassword({ email, password })\<close>\<close>

definition sign_in :: "env \<Rightarrow> backend \<Rightarrow> unit reply \<times> backend" where
  "sign_in e b =
     ((case f_sign_in e of
         Works \<Rightarrow> Reply () False
       | Errors \<Rightarrow> Reply () True
       | Throws \<Rightarrow> Thrown),
      logged SignIn b)"

section \<open>The server actions\<close>

text \<open>
  What an action gives its caller: \<open>{ error: "..." }\<close>, or \<open>{ error: null, ... }\<close> with
  its payload, or an exception that nothing catches (a \<open>TypeError\<close> raised before the
  \<open>try\<close> block is entered). Each action takes the environment of the run and the
  backend, and returns its result with the backend as it leaves it. Creating the client,
  writing to the console and invalidating cached pages touch neither the tables nor the
  result; they are left out.
\<close>

datatype 'a outcome = Error string | Ok 'a | TypeError

text \<open>
  The option strings of a form:
  \<open>getAll("options").map(opt => typeof opt === 'string' ? opt.trim() : '').filter(Boolean)\<close>.
\<close>

definition form_options :: "formdata \<Rightarrow> jsstring list" where
  "form_options fd =
     filter (\<lambda>s. s \<noteq> [])
       (map (\<lambda>opt. case opt of Text s \<Rightarrow> trim s | File \<Rightarrow> []) (getAll fd ''options''))"

text \<open>\<open>new Set(options).size !== options.length\<close>\<close>

definition has_duplicates :: "jsstring list \<Rightarrow> bool" where
  "has_duplicates os \<longleftrightarrow> length (remdups os) \<noteq> length os"

text \<open>
  The count the vote action builds from the fetched rows and then drops:
  \<open>voteCounts[idx] = (voteCounts[idx] || 0) + 1\<close> for every row.
\<close>

definition count_vote :: "(jsnumber \<rightharpoonup> nat) \<Rightarrow> jsnumber \<Rightarrow> (jsnumber \<rightharpoonup> nat)" where
  "count_vote voteCounts idx =
     voteCounts(idx \<mapsto> (case voteCounts idx of None \<Rightarrow> 0 | Some n \<Rightarrow> n) + 1)"

definition count_votes :: "jsnumber list \<Rightarrow> (jsnumber \<rightharpoonup> nat)" where
  "count_votes results = foldl count_vote Map.empty results"

subsection \<open>createPoll\<close>

definition createPoll :: "env \<Rightarrow> formdata \<Rightarrow> backend \<Rightarrow> jsstring option outcome \<times> backend" where
  "createPoll e formData b =
     (case get formData ''question'' of
        None \<Rightarrow> (Error ''Please provide a valid question'', b)
      | Some File \<Rightarrow> (TypeError, b)
      | Some (Text question) \<Rightarrow>
          if blank question then (Error ''Please provide a valid question'', b)
          else
            let options = form_options formData in
            if length options < 2 then (Error ''Please provide at least two options'', b)
            else if has_duplicates options then (Error ''All options must be unique'', b)
            else if length options > 20 then (Error ''Maximum of 20 options allowed'', b)
            else
              (case auth_getUser e b of
                 (Thrown, b1) \<Rightarrow> (Error ''An unexpected error occurred'', b1)
               | (Reply user userError, b1) \<Rightarrow>
                  if userError then (Error ''Authentication failed'', b1)
                  else
                    (case user of
                       None \<Rightarrow> (Error ''You must be logged in to create a poll'', b1)
                     | Some uid \<Rightarrow>
                         (case insert_poll e uid (trim question) (map trim options) b1 of
                            (Thrown, b2) \<Rightarrow> (Error ''An unexpected error occurred'', b2)
                          | (Reply data err, b2) \<Rightarrow>
                              if err then (Error ''Failed to create poll'', b2)
                              else (Ok (case data of [] \<Rightarrow> None | r # _ \<Rightarrow> Some (p_id r)), b2)))))"

subsection \<open>submitVote\<close>

definition submitVote :: "env \<Rightarrow> jsstring \<Rightarrow> jsvalue \<Rightarrow> backend \<Rightarrow> bool outcome \<times> backend" where
  "submitVote e pollId optionIndex b =
     (if blank pollId then (Error ''Invalid poll ID'', b)
      else
        (case optionIndex of
           JOther \<Rightarrow> (Error ''Invalid option selected'', b)
         | JNumber idx \<Rightarrow>
            if lt_zero idx then (Error ''Invalid option selected'', b)
            else
              let sanitizedPollId = trim pollId in
              if \<not> uuidRegex sanitizedPollId then (Error ''Invalid poll ID format'', b)
              else
                (case select_poll e sanitizedPollId b of
                   (Thrown, b1) \<Rightarrow> (Error ''An unexpected error occurred'', b1)
                 | (Reply found pollError, b1) \<Rightarrow>
                    (case (if pollError then None else found) of
                       None \<Rightarrow> (Error ''Poll not found'', b1)
                     | Some p \<Rightarrow>
                         if (case p_options p of None \<Rightarrow> True | Some os \<Rightarrow> ge_length idx (length os))
                         then (Error ''Invalid option selected'', b1)
                         else
                           (case auth_getUser e b1 of
                              (Thrown, b2) \<Rightarrow> (Error ''An unexpected error occurred'', b2)
                            | (Reply user userError, b2) \<Rightarrow>
                                if userError then (Error ''Authentication failed'', b2)
                                else
                                  (case (case user of
                                           None \<Rightarrow> (Reply None False, b2)
                                         | Some uid \<Rightarrow> select_vote e sanitizedPollId uid b2) of
                                     (Thrown, b3) \<Rightarrow> (Error ''An unexpected error occurred'', b3)
                                   | (Reply (Some existingVote) _, b3) \<Rightarrow>
                                       (Error ''You have already voted on this poll'', b3)
                                   | (Reply None _, b3) \<Rightarrow>
                                       (case insert_vote e
                                               \<lparr>v_poll_id = sanitizedPollId, v_user_id = user,
                                                v_option_index = idx, v_created_at = now e\<rparr> b3 of
                                          (Thrown, b4) \<Rightarrow> (Error ''An unexpected error occurred'', b4)
                                        | (Reply newVote err, b4) \<Rightarrow>
                                            if err then (Error ''Failed to submit vote'', b4)
                                            else
                                              (case select_results e sanitizedPollId b4 of
                                                 (Thrown, b5) \<Rightarrow>
                                                   (Error ''An unexpected error occurred'', b5)
                                               | (Reply results resultsError, b5) \<Rightarrow>
                                                   let voteCounts =
                                                     (if resultsError then Map.empty
                                                      else case results of
                                                             None \<Rightarrow> Map.empty
                                                           | Some rows \<Rightarrow> count_votes rows)
                                                   in (Ok True, b5)))))))))"

subsection \<open>deletePoll\<close>

definition deletePoll :: "env \<Rightarrow> jsstring \<Rightarrow> backend \<Rightarrow> bool outcome \<times> backend" where
  "deletePoll e ident b =
     (if blank ident then (Error ''Invalid poll ID'', b)
      else
        let sanitizedPollId = trim ident in
        if \<not> uuidRegex sanitizedPollId then (Error ''Invalid poll ID format'', b)
        else
          (case auth_getUser e b of
             (Thrown, b1) \<Rightarrow> (Error ''An unexpected error occurred'', b1)
           | (Reply user userError, b1) \<Rightarrow>
              (case (if userError then None else user) of
                 None \<Rightarrow> (Error ''You must be logged in to delete a poll'', b1)
               | Some uid \<Rightarrow>
                   (case select_poll e sanitizedPollId b1 of
                      (Thrown, b2) \<Rightarrow> (Error ''An unexpected error occurred'', b2)
                    | (Reply found pollError, b2) \<Rightarrow>
                        (case (if pollError then None else found) of
                           None \<Rightarrow> (Error ''Poll not found'', b2)
                         | Some p \<Rightarrow>
                             if p_user_id p \<noteq> uid
                             then (Error ''You do not have permission to delete this poll'', b2)
                             else
                               (case delete_votes e sanitizedPollId b2 of
                                  (Thrown, b3) \<Rightarrow> (Error ''An unexpected error occurred'', b3)
                                | (Reply _ votesDeleteError, b3) \<Rightarrow>
                                    if votesDeleteError
                                    then (Error ''Failed to delete poll votes'', b3)
                                    else
                                      (case delete_poll e sanitizedPollId uid b3 of
                                         (Thrown, b4) \<Rightarrow>
                                           (Error ''An unexpected error occurred'', b4)
                                       | (Reply _ err, b4) \<Rightarrow>
                                           if err then (Error ''Failed to delete poll'', b4)
                                           else (Ok True, b4))))))))"

subsection \<open>updatePoll\<close>

definition updatePoll :: "env \<Rightarrow> jsstring \<Rightarrow> formdata \<Rightarrow> backend \<Rightarrow> unit outcome \<times> backend" where
  "updatePoll e pollId formData b =
     (if blank pollId then (Error ''Invalid poll ID'', b)
      else
        (case get formData ''question'' of
           None \<Rightarrow> (Error ''Please provide a valid question'', b)
         | Some File \<Rightarrow> (TypeError, b)
         | Some (Text question) \<Rightarrow>
            if blank question then (Error ''Please provide a valid question'', b)
            else
              let options = form_options formData in
              if length options < 2 then (Error ''Please provide at least two options'', b)
              else if has_duplicates options then (Error ''All options must be unique'', b)
              else
                (case auth_getUser e b of
                   (Thrown, b1) \<Rightarrow> (Error ''An unexpected error occurred'', b1)
                 | (Reply user userError, b1) \<Rightarrow>
                    if userError then (Error ''Authentication failed'', b1)
                    else
                      (case user of
                         None \<Rightarrow> (Error ''You must be logged in to update a poll'', b1)
                       | Some uid \<Rightarrow>
                           (case select_poll e pollId b1 of
                              (Thrown, b2) \<Rightarrow> (Error ''An unexpected error occurred'', b2)
                            | (Reply found pollError, b2) \<Rightarrow>
                                (case (if pollError then None else found) of
                                   None \<Rightarrow> (Error ''Poll not found'', b2)
                                 | Some p \<Rightarrow>
                                     if p_user_id p \<noteq> uid
                                     then (Error ''You do not have permission to update this poll'', b2)
                                     else
                                       (case update_poll e pollId uid (trim question)
                                               (map trim options) b2 of
                                          (Thrown, b3) \<Rightarrow>
                                            (Error ''An unexpected error occurred'', b3)
                                        | (Reply _ err, b3) \<Rightarrow>
                                            if err then (Error ''Failed to update poll'', b3)
                                            else (Ok (), b3))))))))"

subsection \<open>login\<close>

text \<open>
  The sign-in action of the login page. Whether the identity service accepts the
  credentials is part of the environment, so the normalised address it is sent is not
  kept.
\<close>

definition login :: "env \<Rightarrow> jsstring \<Rightarrow> jsstring \<Rightarrow> backend \<Rightarrow> unit outcome \<times> backend" where
  "login e email password b =
     (if email = [] \<or> password = [] then (Error ''Email and password are required'', b)
      else
        (case sign_in e b of
           (Thrown, b1) \<Rightarrow> (Error ''An unexpected error occurred'', b1)
         | (Reply _ err, b1) \<Rightarrow>
             if err then (Error ''Invalid login credentials'', b1) else (Ok (), b1)))"

section \<open>The forms and their anti-forgery tokens\<close>

text \<open>
  The session storage of the browser, by key. A form keeps its token under a key of its
  own: \<open>pollCsrfToken\<close> for the poll form, \<open>csrfToken\<close> for the login form.
\<close>

type_synonym storage = "string \<rightharpoonup> jsstring"

text \<open>
  What a form shows once a submission is handled: the error message, if any, and a flag
  (\<open>success\<close> for the poll form, \<open>loading\<close> for the login form, which stays set only when
  the login went through); or an exception nothing handled.
\<close>

datatype view = View "string option" bool | Unhandled

text \<open>
  \<open>formCsrfToken !== storedToken\<close> negated: a form entry and a stored item are equal when
  both are \<open>null\<close> or both are the same string.
\<close>

fun strict_eq :: "entry option \<Rightarrow> jsstring option \<Rightarrow> bool" where
  "strict_eq None None = True"
| "strict_eq (Some (Text s)) (Some t) = (s = t)"
| "strict_eq _ _ = False"

text \<open>
  The effect run when a form is mounted stores a token drawn from the random source; the
  drawn value is a parameter here.
\<close>

definition PollCreateForm_mount :: "jsstring \<Rightarrow> storage \<Rightarrow> storage" where
  "PollCreateForm_mount token st = st(''pollCsrfToken'' \<mapsto> token)"

definition LoginPage_mount :: "jsstring \<Rightarrow> storage \<Rightarrow> storage" where
  "LoginPage_mount token st = st(''csrfToken'' \<mapsto> token)"

text \<open>The client-side check of the poll form; \<open>Ok ()\<close> stands for its result \<open>null\<close>.\<close>

definition validateForm :: "formdata \<Rightarrow> unit outcome" where
  "validateForm formData =
     (case get formData ''question'' of
        None \<Rightarrow> Error ''Please provide a valid question''
      | Some File \<Rightarrow> TypeError
      | Some (Text question) \<Rightarrow>
          if blank question then Error ''Please provide a valid question''
          else
            let formOptions = getAll formData ''options'' in
            if File \<in> set formOptions then TypeError
            else
              let validOptions = filter (\<lambda>opt. case opt of Text s \<Rightarrow> \<not> blank s | File \<Rightarrow> False)
                                   formOptions
              in
                if length validOptions < 2 then Error ''Please provide at least two options''
                else if length (remdups (map (\<lambda>opt. case opt of Text s \<Rightarrow> trim s | File \<Rightarrow> [])
                                           validOptions)) \<noteq> length validOptions
                then Error ''All options must be unique''
                else Ok ())"

text \<open>
  The submit action of the poll form. \<open>newToken\<close> is the value the random source gives
  when the action asks for a new token.
\<close>

definition PollCreateForm_action ::
  "env \<Rightarrow> jsstring \<Rightarrow> formdata \<Rightarrow> storage \<Rightarrow> backend \<Rightarrow> view \<times> storage \<times> backend" where
  "PollCreateForm_action e newToken formData st b =
     (let formCsrfToken = get formData ''csrfToken'';
          storedToken = st ''pollCsrfToken''
      in
        if \<not> strict_eq formCsrfToken storedToken
        then (View (Some ''Security validation failed. Please refresh the page and try again.'')
                False, st, b)
        else
          (case validateForm formData of
             TypeError \<Rightarrow> (Unhandled, st, b)
           | Error validationError \<Rightarrow> (View (Some validationError) False, st, b)
           | Ok _ \<Rightarrow>
               (case createPoll e formData b of
                  (TypeError, b1) \<Rightarrow>
                    (View (Some ''An unexpected error occurred. Please try again.'') False, st, b1)
                | (Error msg, b1) \<Rightarrow> (View (Some msg) False, st, b1)
                | (Ok pollId, b1) \<Rightarrow>
                    (View None True,
                     (st(''pollCsrfToken'' := None))(''pollCsrfToken'' \<mapsto> newToken), b1))))"

text \<open>
  The regular expression \<open>/^[^\s@]+@[^\s@]+\.[^\s@]+$/\<close> of the login page: a non-empty
  part before the only \<open>@\<close>, and after it a part with a dot that is neither its first nor
  its last character; no white space anywhere.
\<close>

definition plain_char :: "nat \<Rightarrow> bool" where
  "plain_char c \<longleftrightarrow> \<not> is_space c \<and> c \<noteq> 64"

definition emailRegex :: "jsstring \<Rightarrow> bool" where
  "emailRegex s =
     (let local_part = takeWhile (\<lambda>c. c \<noteq> 64) s in
        local_part \<noteq> [] \<and> list_all plain_char local_part \<and>
        (case dropWhile (\<lambda>c. c \<noteq> 64) s of
           [] \<Rightarrow> False
         | _ # domain_part \<Rightarrow>
             list_all plain_char domain_part \<and> 46 \<in> set (butlast (tl domain_part))))"

text \<open>The submit handler of the login page.\<close>

definition handleSubmit ::
  "env \<Rightarrow> jsstring \<Rightarrow> formdata \<Rightarrow> storage \<Rightarrow> backend \<Rightarrow> view \<times> storage \<times> backend" where
  "handleSubmit e newToken formData st b =
     (let email = get formData ''email'';
          password = get formData ''password'';
          formCsrfToken = get formData ''csrfToken''
      in
        case (case email of Some (Text s) \<Rightarrow> if emailRegex s then Some s else None | _ \<Rightarrow> None) of
          None \<Rightarrow> (View (Some ''Please enter a valid email address'') False, st, b)
        | Some address \<Rightarrow>
            (case password of
               None \<Rightarrow> (View (Some ''Password is required'') False, st, b)
             | Some File \<Rightarrow> (Unhandled, st, b)
             | Some (Text pw) \<Rightarrow>
                 if blank pw then (View (Some ''Password is required'') False, st, b)
                 else
                   let storedToken = st ''csrfToken'' in
                   if \<not> strict_eq formCsrfToken storedToken
                   then (View (Some ''Security validation failed. Please refresh the page and try again.'')
                           False, st, b)
                   else
                     (case login e address pw b of
                        (TypeError, b1) \<Rightarrow>
                          (View (Some ''An unexpected error occurred. Please try again.'') False,
                           st, b1)
                      | (Error msg, b1) \<Rightarrow> (View (Some msg) False, st, b1)
                      | (Ok _, b1) \<Rightarrow>
                          (View None True,
                           (st(''csrfToken'' := None))(''csrfToken'' \<mapsto> newToken), b1))))"

section \<open>Vocabulary of the properties\<close>

text \<open>An action fails when it returns an error or raises.\<close>

fun failed :: "'a outcome \<Rightarrow> bool" where
  "failed (Ok x) = False"
| "failed (Error msg) = True"
| "failed TypeError = True"

text \<open>Both tables are as they were (the list of requests may have grown).\<close>

definition same_tables :: "backend \<Rightarrow> backend \<Rightarrow> bool" where
  "same_tables b b' \<longleftrightarrow> polls b' = polls b \<and> votes b' = votes b"

text \<open>The rows a lookup by id and a lookup by poll and voter range over.\<close>

definition polls_with_id :: "jsstring \<Rightarrow> backend \<Rightarrow> poll list" where
  "polls_with_id i b = filter (\<lambda>p. p_id p = i) (polls b)"

definition votes_of :: "jsstring \<Rightarrow> jsstring option \<Rightarrow> backend \<Rightarrow> vote list" where
  "votes_of i u b = filter (\<lambda>v. v_poll_id v = i \<and> v_user_id v = u) (votes b)"

text \<open>The requests sent during a run that took the backend from \<open>b\<close> to \<open>b'\<close>.\<close>

definition new_calls :: "backend \<Rightarrow> backend \<Rightarrow> call list" where
  "new_calls b b' = drop (length (calls b)) (calls b')"

text \<open>
  A vote request gets as far as the question who is voting: the id has the right shape,
  the lookup finds exactly one poll, and the index passes the two comparisons the action
  makes (not below \<open>0\<close>, not at or above the number of options).
\<close>

definition passes_poll_checks :: "env \<Rightarrow> jsstring \<Rightarrow> jsvalue \<Rightarrow> backend \<Rightarrow> bool" where
  "passes_poll_checks e pollId optionIndex b \<longleftrightarrow>
     \<not> blank pollId \<and> uuidRegex (trim pollId) \<and> f_select_poll e = Works \<and>
     (case optionIndex of
        JOther \<Rightarrow> False
      | JNumber idx \<Rightarrow>
          \<not> lt_zero idx \<and>
          (case polls_with_id (trim pollId) b of
             [p] \<Rightarrow> (case p_options p of None \<Rightarrow> False | Some os \<Rightarrow> \<not> ge_length idx (length os))
           | _ \<Rightarrow> False))"

text \<open>The messages a form shows when the presented token is not the stored one.\<close>

definition security_failure :: view where
  "security_failure =
     View (Some ''Security validation failed. Please refresh the page and try again.'') False"

text \<open>The form passes the checks \<open>updatePoll\<close> makes on it before it asks any service.\<close>

definition update_form_accepted :: "formdata \<Rightarrow> bool" where
  "update_form_accepted fd \<longleftrightarrow>
     (case get fd ''question'' of Some (Text q) \<Rightarrow> \<not> blank q | _ \<Rightarrow> False) \<and>
     2 \<le> length (form_options fd) \<and> \<not> has_duplicates (form_options fd)"

section \<open>A concrete scenario\<close>

text \<open>
  Two users, one poll of the second user with the options Red and Blue, and a run in
  which every service answers and a new poll gets the id \<open>pid1\<close>. The scenario
  instantiates the general theorems below.
\<close>

definition alice :: jsstring where
  "alice = js ''alice''"

definition bob :: jsstring where
  "bob = js ''bob''"

definition pid0 :: jsstring where
  "pid0 = js ''123e4567-e89b-12d3-a456-426614174000''"

definition pid1 :: jsstring where
  "pid1 = js ''9b2d7f10-3c4e-4a5b-8d6f-0123456789ab''"

definition env_as :: "jsstring option \<Rightarrow> env" where
  "env_as user =
     \<lparr>session = Reply user False, now = js ''2024-01-01T00:00:00.000Z'', new_id = pid1,
      f_select_poll = Works, f_select_vote = Works, f_insert_vote = Works,
      f_select_results = Works, f_delete_votes = Works, f_delete_poll = Works,
      f_update_poll = Works, f_insert_poll = Works, f_sign_in = Works\<rparr>"

definition poll0 :: poll where
  "poll0 = \<lparr>p_id = pid0, p_user_id = bob, p_question = js ''Best color?'',
            p_options = Some [js ''Red'', js ''Blue''], p_created_at = js ''2023-12-31''\<rparr>"

definition store0 :: backend where
  "store0 = \<lparr>polls = [poll0], votes = [], calls = []\<rparr>"

definition vote_alice :: vote where
  "vote_alice = \<lparr>v_poll_id = pid0, v_user_id = Some alice, v_option_index = Finite 0,
                 v_created_at = js ''2024-01-01''\<rparr>"

definition vote_anon :: vote where
  "vote_anon = \<lparr>v_poll_id = pid0, v_user_id = None, v_option_index = Finite 1,
                v_created_at = js ''2024-01-01''\<rparr>"

definition store_voted :: backend where
  "store_voted = store0\<lparr>votes := [vote_alice]\<rparr>"

definition store_anon :: backend where
  "store_anon = store0\<lparr>votes := [vote_anon]\<rparr>"

definition store_empty :: backend where
  "store_empty = \<lparr>polls = [], votes = [], calls = []\<rparr>"

definition form0 :: formdata where
  "form0 = [(''question'', Text (js ''Best colour?'')),
            (''options'', Text (js ''Green'')), (''options'', Text (js '' Yellow ''))]"

text \<open>A form with twenty-one different options, and an id that is not of the UUID shape.\<close>

definition form21 :: formdata where
  "form21 = (''question'', Text (js ''Which letter?'')) #
            map (\<lambda>c. (''options'', Text [of_char c])) ''abcdefghijklmnopqrstu''"

definition bad_id :: jsstring where
  "bad_id = js ''not-a-uuid''"

text \<open>
  A browser session in which the poll form was mounted with the token \<open>tok\<close>, the value
  \<open>tok_new\<close> the random source gives next, and two submissions of the form: one carrying
  the stored token and one carrying a guess.
\<close>

definition tok :: jsstring where
  "tok = js ''k3x9q2w8''"

definition tok_new :: jsstring where
  "tok_new = js ''p7m1z8c4''"

definition session0 :: storage where
  "session0 = PollCreateForm_mount tok Map.empty"

definition form_good :: formdata where
  "form_good = form0 @ [(''csrfToken'', Text tok)]"

definition form_forged :: formdata where
  "form_forged = form0 @ [(''csrfToken'', Text (js ''guess''))]"

text \<open>The same for the login page.\<close>

definition login_session0 :: storage where
  "login_session0 = LoginPage_mount tok Map.empty"

definition login_good :: formdata where
  "login_good = [(''email'', Text (js ''alice@example.org'')), (''password'', Text (js ''correct horse'')),
                 (''csrfToken'', Text tok)]"

definition login_forged :: formdata where
  "login_forged = [(''email'', Text (js ''alice@example.org'')), (''password'', Text (js ''correct horse'')),
                   (''csrfToken'', Text (js ''guess''))]"

section \<open>Facts about the services and the scenario\<close>

lemma logged_simps [simp]:
  "polls (logged c b) = polls b" "votes (logged c b) = votes b" "calls (logged c b) = calls b @ [c]"
  by (simp_all add: logged_def)

lemma same_tables_logged [simp]: "same_tables b (logged c b') = same_tables b b'"
  by (simp add: same_tables_def)

lemma same_tables_refl [simp]: "same_tables b b"
  by (simp add: same_tables_def)

lemma single_not_Thrown [simp]: "single rows \<noteq> Thrown" "maybeSingle rows \<noteq> Thrown"
  by (simp_all add: single_def maybeSingle_def split: list.splits)

lemma single_other_owner:
  assumes "p \<in> set ps" "p_id p = i" "p_user_id p \<noteq> u"
      and "single (filter (\<lambda>p. p_id p = i) ps) = Reply (Some q) err"
  shows "p_user_id q \<noteq> u"
proof -
  from assms(4) have "filter (\<lambda>p. p_id p = i) ps = [q]"
    by (auto simp: single_def split: list.splits)
  moreover from assms(1,2) have "p \<in> set (filter (\<lambda>p. p_id p = i) ps)" by simp
  ultimately have "p = q" by simp
  with assms(3) show ?thesis by simp
qed

lemma pid0_uuid: "uuidRegex pid0"
  by (simp add: pid0_def uuidRegex_def js_def is_hex_def)

lemma pid0_trim: "trim pid0 = pid0"
  by (simp add: pid0_def trim_def js_def is_space_def)

lemma pid0_not_blank: "\<not> blank pid0"
  by (simp add: blank_def pid0_trim) (simp add: pid0_def js_def)

lemma alice_not_bob: "alice \<noteq> bob"
  by (simp add: alice_def bob_def js_def)

lemma form0_options: "form_options form0 = [js ''Green'', js ''Yellow'']"
  by (simp add: form_options_def form0_def getAll_def trim_def js_def is_space_def)

lemma form0_accepted: "update_form_accepted form0"
  by (simp add: update_form_accepted_def form0_options has_duplicates_def)
     (simp add: form0_def get_def blank_def trim_def js_def is_space_def)

section \<open>Ownership\<close>

text \<open>
  Claim C1. Let the caller be signed in as \<open>u\<close> and let the table hold a poll \<open>p\<close> under
  the target id whose owner is not \<open>u\<close>. Then \<open>deletePoll\<close> and \<open>updatePoll\<close> fail and
  leave both tables exactly as they were, whatever the form holds and however the services
  fare. When the request passes the input checks and the lookup does not raise, the error
  is the permission error or the not-found error (the latter when the lookup answers with
  an error or finds the id more than once). \<open>deletePoll\<close> looks the poll up under the
  trimmed id, \<open>updatePoll\<close> under the id as given.
\<close>

theorem non_owner_cannot_change_poll:
  assumes "session e = Reply (Some u) False" and "p \<in> set (polls b)" and "p_user_id p \<noteq> u"
  shows "(p_id p = trim ident \<longrightarrow>
            failed (fst (deletePoll e ident b)) \<and> same_tables b (snd (deletePoll e ident b)) \<and>
            (\<not> blank ident \<and> uuidRegex (trim ident) \<and> f_select_poll e \<noteq> Throws \<longrightarrow>
               fst (deletePoll e ident b) = Error ''You do not have permission to delete this poll'' \<or>
               fst (deletePoll e ident b) = Error ''Poll not found'')) \<and>
         (p_id p = pollId \<longrightarrow>
            failed (fst (updatePoll e pollId fd b)) \<and> same_tables b (snd (updatePoll e pollId fd b)) \<and>
            (\<not> blank pollId \<and> update_form_accepted fd \<and> f_select_poll e \<noteq> Throws \<longrightarrow>
               fst (updatePoll e pollId fd b) = Error ''You do not have permission to update this poll'' \<or>
               fst (updatePoll e pollId fd b) = Error ''Poll not found''))"
proof (intro conjI impI)
  assume i: "p_id p = trim ident"
  note other = single_other_owner[OF assms(2) i assms(3)]
  show "failed (fst (deletePoll e ident b))"
    using assms(1) other
    by (auto simp: deletePoll_def Let_def auth_getUser_def select_poll_def
        split: reply.splits option.splits fault.splits if_splits prod.splits)
  show "same_tables b (snd (deletePoll e ident b))"
    using assms(1) other
    by (auto simp: deletePoll_def Let_def auth_getUser_def select_poll_def
        split: reply.splits option.splits fault.splits if_splits prod.splits)
  assume "\<not> blank ident \<and> uuidRegex (trim ident) \<and> f_select_poll e \<noteq> Throws"
  then show "fst (deletePoll e ident b) = Error ''You do not have permission to delete this poll'' \<or>
        fst (deletePoll e ident b) = Error ''Poll not found''"
    using assms(1) other
    by (auto simp: deletePoll_def Let_def auth_getUser_def select_poll_def
        split: reply.splits option.splits fault.splits if_splits prod.splits)
next
  assume i: "p_id p = pollId"
  note other = single_other_owner[OF assms(2) i assms(3)]
  show "failed (fst (updatePoll e pollId fd b))"
    using assms(1) other
    by (auto simp: updatePoll_def Let_def auth_getUser_def select_poll_def
        split: reply.splits option.splits fault.splits if_splits prod.splits entry.splits)
  show "same_tables b (snd (updatePoll e pollId fd b))"
    using assms(1) other
    by (auto simp: updatePoll_def Let_def auth_getUser_def select_poll_def
        split: reply.splits option.splits fault.splits if_splits prod.splits entry.splits)
  assume "\<not> blank pollId \<and> update_form_accepted fd \<and> f_select_poll e \<noteq> Throws"
  then show "fst (updatePoll e pollId fd b) = Error ''You do not have permission to update this poll'' \<or>
        fst (updatePoll e pollId fd b) = Error ''Poll not found''"
    using assms(1) other
    by (auto simp: updatePoll_def update_form_accepted_def Let_def auth_getUser_def select_poll_def
        split: reply.splits option.splits fault.splits if_splits prod.splits entry.splits)
qed

theorem non_owner_cannot_change_poll_witness:
  "session (env_as (Some alice)) = Reply (Some alice) False \<and> poll0 \<in> set (polls store0) \<and>
   p_user_id poll0 \<noteq> alice \<and> p_id poll0 = trim pid0 \<and> p_id poll0 = pid0 \<and>
   \<not> blank pid0 \<and> uuidRegex (trim pid0) \<and> update_form_accepted form0 \<and>
   f_select_poll (env_as (Some alice)) \<noteq> Throws \<and>
   fst (deletePoll (env_as (Some alice)) pid0 store0) =
     Error ''You do not have permission to delete this poll'' \<and>
   fst (updatePoll (env_as (Some alice)) pid0 form0 store0) =
     Error ''You do not have permission to update this poll'' \<and>
   same_tables store0 (snd (deletePoll (env_as (Some alice)) pid0 store0)) \<and>
   same_tables store0 (snd (updatePoll (env_as (Some alice)) pid0 form0 store0))"
proof -
  have h1: "session (env_as (Some alice)) = Reply (Some alice) False"
    by (simp add: env_as_def)
  have h2: "poll0 \<in> set (polls store0)"
    by (simp add: store0_def)
  have h3: "p_user_id poll0 \<noteq> alice"
    using alice_not_bob by (simp add: poll0_def)
  have h4: "p_id poll0 = trim pid0" "p_id poll0 = pid0"
    by (simp_all add: poll0_def pid0_trim)
  have h5: "f_select_poll (env_as (Some alice)) \<noteq> Throws"
    by (simp add: env_as_def)
  have nf: "fst (deletePoll (env_as (Some alice)) pid0 store0) \<noteq> Error ''Poll not found''"
       "fst (updatePoll (env_as (Some alice)) pid0 form0 store0) \<noteq> Error ''Poll not found''"
    using h3 pid0_not_blank pid0_uuid form0_accepted
    by (simp_all add: deletePoll_def updatePoll_def update_form_accepted_def Let_def pid0_trim env_as_def store0_def
        auth_getUser_def select_poll_def single_def poll0_def split: option.splits entry.splits)
  from non_owner_cannot_change_poll[OF h1 h2 h3, of pid0 pid0 form0] h1 h2 h3 h4 h5 nf
    pid0_not_blank pid0_uuid form0_accepted
  show ?thesis by (simp add: pid0_trim)
qed


section \<open>Voting\<close>

lemma ge_length_index: "i < n \<Longrightarrow> \<not> ge_length (Finite (of_nat i)) n" "\<not> lt_zero (Finite (of_nat i))"
  by simp_all

lemma single_one [simp]: "single [r] = Reply (Some r) False"
  by (simp add: single_def)

lemma maybeSingle_simps [simp]:
  "maybeSingle [] = Reply None False" "maybeSingle [r] = Reply (Some r) False"
  by (simp_all add: maybeSingle_def)

lemma submitVote_recorded:
  assumes "session e = Reply user False" "\<not> blank pollId" "uuidRegex (trim pollId)"
      and "f_select_poll e = Works" "polls_with_id (trim pollId) b = [p]" "p_options p = Some os"
      and "\<not> lt_zero idx" "\<not> ge_length idx (length os)"
      and "user = None \<or> f_select_vote e = Errors \<or>
           (f_select_vote e = Works \<and> length (votes_of (trim pollId) user b) \<noteq> 1)"
      and "f_insert_vote e = Works" "f_select_results e \<noteq> Throws"
  shows "fst (submitVote e pollId (JNumber idx) b) = Ok True"
    and "polls (snd (submitVote e pollId (JNumber idx) b)) = polls b"
    and "votes (snd (submitVote e pollId (JNumber idx) b)) =
           votes b @ [\<lparr>v_poll_id = trim pollId, v_user_id = user, v_option_index = idx,
                       v_created_at = now e\<rparr>]"
  using assms
  by (auto simp: submitVote_def Let_def auth_getUser_def select_poll_def select_vote_def
      insert_vote_def select_results_def polls_with_id_def votes_of_def maybeSingle_def
      split: fault.splits option.splits list.splits)

lemma submitVote_duplicate:
  assumes "session e = Reply (Some u) False" "\<not> blank pollId" "uuidRegex (trim pollId)"
      and "f_select_poll e = Works" "polls_with_id (trim pollId) b = [p]" "p_options p = Some os"
      and "\<not> lt_zero idx" "\<not> ge_length idx (length os)"
      and "f_select_vote e = Works" "votes_of (trim pollId) (Some u) b = [v]"
  shows "fst (submitVote e pollId (JNumber idx) b) = Error ''You have already voted on this poll''"
    and "same_tables b (snd (submitVote e pollId (JNumber idx) b))"
  using assms
  by (auto simp: submitVote_def Let_def auth_getUser_def select_poll_def select_vote_def
      polls_with_id_def votes_of_def)

text \<open>
  Claim C2. A caller signed in as \<open>u\<close> votes twice in a row on the poll stored under the
  (trimmed) id, each time with an index below the number of its options. The poll is found,
  \<open>u\<close> has no vote on it yet, the vote lookups and the first insert work and the fetch of
  the results does not raise. Then the first call succeeds, the second is refused as a
  duplicate, and afterwards the table holds the first vote as the only vote of \<open>u\<close> on
  the poll.
\<close>

theorem second_vote_is_refused:
  assumes "session e1 = Reply (Some u) False" and "session e2 = Reply (Some u) False"
      and "\<not> blank pollId" and "uuidRegex (trim pollId)"
      and "f_select_poll e1 = Works" and "f_select_poll e2 = Works"
      and "f_select_vote e1 = Works" and "f_select_vote e2 = Works"
      and "f_insert_vote e1 = Works" and "f_select_results e1 \<noteq> Throws"
      and "polls_with_id (trim pollId) b = [p]" and "p_options p = Some os"
      and "i < length os" and "j < length os"
      and "votes_of (trim pollId) (Some u) b = []"
  shows "let first = submitVote e1 pollId (JNumber (Finite (of_nat i))) b;
             second = submitVote e2 pollId (JNumber (Finite (of_nat j))) (snd first)
         in fst first = Ok True \<and>
            fst second = Error ''You have already voted on this poll'' \<and>
            length (votes_of (trim pollId) (Some u) (snd second)) \<le> 1 \<and>
            votes (snd second) =
              votes b @ [\<lparr>v_poll_id = trim pollId, v_user_id = Some u,
                          v_option_index = Finite (of_nat i), v_created_at = now e1\<rparr>]"
proof -
  let ?v = "\<lparr>v_poll_id = trim pollId, v_user_id = Some u,
             v_option_index = Finite (of_nat i), v_created_at = now e1\<rparr>"
  let ?first = "submitVote e1 pollId (JNumber (Finite (of_nat i))) b"
  let ?second = "submitVote e2 pollId (JNumber (Finite (of_nat j))) (snd ?first)"
  have none: "user = None \<or> f_select_vote e1 = Errors \<or>
      (f_select_vote e1 = Works \<and> length (votes_of (trim pollId) (Some u) b) \<noteq> 1)" for user :: "jsstring option"
    using assms(7,15) by simp
  have r1: "fst ?first = Ok True"
    by (rule submitVote_recorded(1)[OF assms(1,3,4,5,11,12) ge_length_index(2)
          ge_length_index(1)[OF assms(13)] none assms(9,10)])
  have p1: "polls (snd ?first) = polls b"
    by (rule submitVote_recorded(2)[OF assms(1,3,4,5,11,12) ge_length_index(2)
          ge_length_index(1)[OF assms(13)] none assms(9,10)])
  have v1: "votes (snd ?first) = votes b @ [?v]"
    by (rule submitVote_recorded(3)[OF assms(1,3,4,5,11,12) ge_length_index(2)
          ge_length_index(1)[OF assms(13)] none assms(9,10)])
  have found: "polls_with_id (trim pollId) (snd ?first) = [p]"
    using assms(11) p1 by (simp add: polls_with_id_def)
  have mine: "votes_of (trim pollId) (Some u) (snd ?first) = [?v]"
    using assms(15) v1 by (simp add: votes_of_def)
  have r2: "fst ?second = Error ''You have already voted on this poll''"
    by (rule submitVote_duplicate(1)[OF assms(2,3,4,6) found assms(12) ge_length_index(2)
          ge_length_index(1)[OF assms(14)] assms(8) mine])
  have "same_tables (snd ?first) (snd ?second)"
    by (rule submitVote_duplicate(2)[OF assms(2,3,4,6) found assms(12) ge_length_index(2)
          ge_length_index(1)[OF assms(14)] assms(8) mine])
  then have v2: "votes (snd ?second) = votes b @ [?v]"
    using v1 by (simp add: same_tables_def)
  then have "votes_of (trim pollId) (Some u) (snd ?second) = [?v]"
    using assms(15) by (simp add: votes_of_def)
  with r1 r2 v2 show ?thesis by (simp add: Let_def)
qed


lemma store0_lookup: "polls_with_id pid0 store0 = [poll0]"
  by (simp add: polls_with_id_def store0_def poll0_def)

theorem second_vote_is_refused_witness:
  "session (env_as (Some alice)) = Reply (Some alice) False \<and> \<not> blank pid0 \<and>
   uuidRegex (trim pid0) \<and> polls_with_id (trim pid0) store0 = [poll0] \<and>
   p_options poll0 = Some [js ''Red'', js ''Blue''] \<and> (0::nat) < length [js ''Red'', js ''Blue''] \<and>
   (1::nat) < length [js ''Red'', js ''Blue''] \<and> votes_of (trim pid0) (Some alice) store0 = [] \<and>
   (let first = submitVote (env_as (Some alice)) pid0 (JNumber (Finite 0)) store0;
        second = submitVote (env_as (Some alice)) pid0 (JNumber (Finite 1)) (snd first)
    in fst first = Ok True \<and> fst second = Error ''You have already voted on this poll'' \<and>
       length (votes_of (trim pid0) (Some alice) (snd second)) \<le> 1)"
proof -
  have h1: "session (env_as (Some alice)) = Reply (Some alice) False"
    by (simp add: env_as_def)
  have h2: "uuidRegex (trim pid0)"
    by (simp add: pid0_trim pid0_uuid)
  have h3: "f_select_poll (env_as (Some alice)) = Works" "f_select_vote (env_as (Some alice)) = Works"
    "f_insert_vote (env_as (Some alice)) = Works" "f_select_results (env_as (Some alice)) \<noteq> Throws"
    by (simp_all add: env_as_def)
  have h4: "polls_with_id (trim pid0) store0 = [poll0]"
    by (simp add: pid0_trim store0_lookup)
  have h5: "p_options poll0 = Some [js ''Red'', js ''Blue'']"
    by (simp add: poll0_def)
  have h6: "(0::nat) < length [js ''Red'', js ''Blue'']" "(1::nat) < length [js ''Red'', js ''Blue'']"
    by simp_all
  have h7: "votes_of (trim pid0) (Some alice) store0 = []"
    by (simp add: votes_of_def store0_def)
  from second_vote_is_refused[OF h1 h1 pid0_not_blank h2 h3(1) h3(1) h3(2) h3(2) h3(3) h3(4) h4 h5 h6 h7]
    h1 pid0_not_blank h2 h4 h5 h7
  show ?thesis by (simp add: Let_def)
qed

text \<open>
  Claim C10 as stated fails when the fetch of the results raises instead of answering. In
  the scenario the insert of the vote has worked and the vote is in the table, yet the
  exception of the fetch is caught and the action returns the error for an unexpected
  failure, not success.
\<close>

theorem raising_fetch_after_insert_counterexample:
  "f_insert_vote ((env_as (Some alice))\<lparr>f_select_results := Throws\<rparr>) = Works \<and>
   votes (snd (submitVote ((env_as (Some alice))\<lparr>f_select_results := Throws\<rparr>) pid0
                 (JNumber (Finite 0)) store0)) =
     [\<lparr>v_poll_id = pid0, v_user_id = Some alice, v_option_index = Finite 0,
       v_created_at = js ''2024-01-01T00:00:00.000Z''\<rparr>] \<and>
   votes store0 = [] \<and>
   fst (submitVote ((env_as (Some alice))\<lparr>f_select_results := Throws\<rparr>) pid0
          (JNumber (Finite 0)) store0) = Error ''An unexpected error occurred'' \<and>
   fst (submitVote ((env_as (Some alice))\<lparr>f_select_results := Throws\<rparr>) pid0
          (JNumber (Finite 0)) store0) \<noteq> Ok True"
proof -
  let ?e = "(env_as (Some alice))\<lparr>f_select_results := Throws\<rparr>"
  have r: "submitVote ?e pid0 (JNumber (Finite 0)) store0 =
      (Error ''An unexpected error occurred'',
       logged (SelectResults pid0) (logged (InsertVote pid0)
         ((logged (SelectVote pid0 alice) (logged GetUser (logged (SelectPoll pid0) store0)))
            \<lparr>votes := [\<lparr>v_poll_id = pid0, v_user_id = Some alice, v_option_index = Finite 0,
                         v_created_at = js ''2024-01-01T00:00:00.000Z''\<rparr>]\<rparr>)))"
    using pid0_not_blank pid0_uuid
    by (simp add: submitVote_def Let_def pid0_trim env_as_def store0_def poll0_def
        auth_getUser_def select_poll_def select_vote_def insert_vote_def select_results_def)
  show ?thesis
    unfolding r by (simp add: env_as_def store0_def)
qed

text \<open>
  Claim C10, amended. The tables change in a run of \<open>submitVote\<close> only when the insert of
  the vote succeeds. Whenever that happens and the fetch of the results answers, with the
  rows or with an error, the action returns \<open>{ error: null, success: true }\<close>; when the
  fetch raises, the exception is caught and the action returns the error for an unexpected
  failure, the vote staying recorded. The payload of a success is the constant \<open>true\<close>:
  the count built from the fetched rows is dropped, and a run in which the fetch answers
  with an error ends exactly as the run in which it answers with the rows.
\<close>

theorem recorded_vote_result_by_fetch:
  "(votes (snd (submitVote e pollId optionIndex b)) \<noteq> votes b \<longrightarrow>
      (f_select_results e \<noteq> Throws \<longrightarrow> fst (submitVote e pollId optionIndex b) = Ok True) \<and>
      (f_select_results e = Throws \<longrightarrow>
         fst (submitVote e pollId optionIndex b) = Error ''An unexpected error occurred'')) \<and>
   submitVote (e\<lparr>f_select_results := Errors\<rparr>) pollId optionIndex b =
   submitVote (e\<lparr>f_select_results := Works\<rparr>) pollId optionIndex b"
proof (intro conjI)
  show "votes (snd (submitVote e pollId optionIndex b)) \<noteq> votes b \<longrightarrow>
      (f_select_results e \<noteq> Throws \<longrightarrow> fst (submitVote e pollId optionIndex b) = Ok True) \<and>
      (f_select_results e = Throws \<longrightarrow>
         fst (submitVote e pollId optionIndex b) = Error ''An unexpected error occurred'')"
    by (simp add: submitVote_def Let_def auth_getUser_def select_poll_def select_vote_def
        insert_vote_def select_results_def
        split: fault.split option.split jsvalue.split reply.split)
next
  show "submitVote (e\<lparr>f_select_results := Errors\<rparr>) pollId optionIndex b =
        submitVote (e\<lparr>f_select_results := Works\<rparr>) pollId optionIndex b"
    by (simp add: submitVote_def Let_def auth_getUser_def select_poll_def select_vote_def
        insert_vote_def select_results_def
        split: fault.split option.split jsvalue.split reply.split)
qed

theorem recorded_vote_result_by_fetch_witness:
  "votes (snd (submitVote ((env_as (Some alice))\<lparr>f_select_results := Errors\<rparr>) pid0
                 (JNumber (Finite 0)) store0)) \<noteq> votes store0 \<and>
   f_select_results ((env_as (Some alice))\<lparr>f_select_results := Errors\<rparr>) \<noteq> Throws \<and>
   fst (submitVote ((env_as (Some alice))\<lparr>f_select_results := Errors\<rparr>) pid0
          (JNumber (Finite 0)) store0) = Ok True \<and>
   votes (snd (submitVote ((env_as (Some alice))\<lparr>f_select_results := Throws\<rparr>) pid0
                 (JNumber (Finite 0)) store0)) \<noteq> votes store0 \<and>
   f_select_results ((env_as (Some alice))\<lparr>f_select_results := Throws\<rparr>) = Throws \<and>
   fst (submitVote ((env_as (Some alice))\<lparr>f_select_results := Throws\<rparr>) pid0
          (JNumber (Finite 0)) store0) = Error ''An unexpected error occurred''"
proof -
  let ?e = "(env_as (Some alice))\<lparr>f_select_results := Errors\<rparr>"
  let ?t = "(env_as (Some alice))\<lparr>f_select_results := Throws\<rparr>"
  have h1: "f_select_results ?e \<noteq> Throws" "f_select_results ?t = Throws"
    by simp_all
  have h2: "votes (snd (submitVote ?e pid0 (JNumber (Finite 0)) store0)) \<noteq> votes store0"
    using pid0_not_blank pid0_uuid
    by (simp add: submitVote_def Let_def pid0_trim env_as_def store0_def poll0_def
        auth_getUser_def select_poll_def select_vote_def insert_vote_def select_results_def)
  have h3: "votes (snd (submitVote ?t pid0 (JNumber (Finite 0)) store0)) \<noteq> votes store0"
    using pid0_not_blank pid0_uuid
    by (simp add: submitVote_def Let_def pid0_trim env_as_def store0_def poll0_def
        auth_getUser_def select_poll_def select_vote_def insert_vote_def select_results_def)
  have r1: "fst (submitVote ?e pid0 (JNumber (Finite 0)) store0) = Ok True"
    using recorded_vote_result_by_fetch[of ?e pid0 "JNumber (Finite 0)" store0] h1(1) h2
    by blast
  have r2: "fst (submitVote ?t pid0 (JNumber (Finite 0)) store0) =
      Error ''An unexpected error occurred''"
    using recorded_vote_result_by_fetch[of ?t pid0 "JNumber (Finite 0)" store0] h1(2) h3
    by blast
  show ?thesis
    using h1 h2 h3 r1 r2 by (intro conjI)
qed

lemma store_voted_lookup: "polls_with_id pid0 store_voted = [poll0]"
  by (simp add: polls_with_id_def store_voted_def store0_def poll0_def)

lemma store_anon_lookup: "polls_with_id pid0 store_anon = [poll0]"
  by (simp add: polls_with_id_def store_anon_def store0_def poll0_def)

lemma passes_poll_checksD:
  assumes "passes_poll_checks e pollId optionIndex b"
  obtains idx p os where "optionIndex = JNumber idx" "\<not> blank pollId" "uuidRegex (trim pollId)"
    "f_select_poll e = Works" "polls_with_id (trim pollId) b = [p]" "p_options p = Some os"
    "\<not> lt_zero idx" "\<not> ge_length idx (length os)"
  using assms
  by (auto simp: passes_poll_checks_def split: jsvalue.splits list.splits option.splits)

lemma submitVote_range_checked:
  assumes "votes (snd (submitVote e pollId optionIndex b)) \<noteq> votes b"
  shows "passes_poll_checks e pollId optionIndex b"
  using assms
  by (auto simp: submitVote_def Let_def auth_getUser_def select_poll_def select_vote_def
      insert_vote_def select_results_def polls_with_id_def single_def passes_poll_checks_def
      split: fault.splits option.splits if_splits jsvalue.splits reply.splits list.splits)

lemma submitVote_signed_in_voter:
  assumes "session e = Reply (Some u) False" "f_select_vote e = Works"
      and "votes_of (trim pollId) (Some u) b = [v]"
  shows "failed (fst (submitVote e pollId optionIndex b))"
    and "same_tables b (snd (submitVote e pollId optionIndex b))"
  using assms
  by (auto simp: submitVote_def Let_def auth_getUser_def select_poll_def select_vote_def
      votes_of_def
      split: fault.splits option.splits if_splits jsvalue.splits reply.splits)

lemma submitVote_anonymous:
  assumes "session e = Reply None False"
  shows "fst (submitVote e pollId optionIndex b) \<noteq> Error ''You have already voted on this poll''"
    and "SelectVote i u \<notin> set (new_calls b (snd (submitVote e pollId optionIndex b)))"
  using assms
  by (auto simp: submitVote_def Let_def auth_getUser_def select_poll_def
      insert_vote_def select_results_def new_calls_def
      split: fault.splits option.splits if_splits jsvalue.splits reply.splits)

text \<open>
  Claim C3 as stated fails for a caller who is not signed in: the lookup of an earlier vote
  is made only when the identity service names a user. In the scenario an anonymous vote
  on the poll exists, and a further anonymous vote is accepted and stored beside it.
\<close>

theorem anonymous_second_vote_counterexample:
  "votes_of pid0 None store_anon = [vote_anon] \<and>
   fst (submitVote (env_as None) pid0 (JNumber (Finite 0)) store_anon) = Ok True \<and>
   fst (submitVote (env_as None) pid0 (JNumber (Finite 0)) store_anon) \<noteq>
     Error ''You have already voted on this poll'' \<and>
   length (votes_of pid0 None (snd (submitVote (env_as None) pid0 (JNumber (Finite 0)) store_anon))) = 2"
proof -
  have s: "session (env_as None) = Reply None False" "f_select_poll (env_as None) = Works"
    "f_insert_vote (env_as None) = Works" "f_select_results (env_as None) \<noteq> Throws"
    by (simp_all add: env_as_def)
  have u: "uuidRegex (trim pid0)" "polls_with_id (trim pid0) store_anon = [poll0]"
    by (simp_all add: pid0_trim pid0_uuid store_anon_lookup)
  have o: "p_options poll0 = Some [js ''Red'', js ''Blue'']"
    by (simp add: poll0_def)
  have r: "\<not> lt_zero (Finite 0)" "\<not> ge_length (Finite 0) (length [js ''Red'', js ''Blue''])"
    by simp_all
  have n: "None = None \<or> f_select_vote (env_as None) = Errors \<or>
      (f_select_vote (env_as None) = Works \<and> length (votes_of (trim pid0) None store_anon) \<noteq> 1)"
    by simp
  note rec = submitVote_recorded[OF s(1) pid0_not_blank u(1) s(2) u(2) o r n s(3,4)]
  have v: "votes_of pid0 None store_anon = [vote_anon]"
    by (simp add: votes_of_def store_anon_def store0_def vote_anon_def)
  have "votes_of pid0 None (snd (submitVote (env_as None) pid0 (JNumber (Finite 0)) store_anon)) =
        [vote_anon, \<lparr>v_poll_id = pid0, v_user_id = None, v_option_index = Finite 0,
                     v_created_at = now (env_as None)\<rparr>]"
    using rec(3) by (simp add: votes_of_def pid0_trim store_anon_def store0_def vote_anon_def)
  with rec(1) v show ?thesis by simp
qed

text \<open>
  Claim C3, amended. For every caller a vote is recorded only after the request has passed
  the checks on the poll and on the index. The duplicate check is made for signed-in
  callers only: a caller signed in as \<open>u\<close> who has one vote on the poll, with the vote
  lookup working, never gets a vote recorded, and is refused as a duplicate once the
  request has passed the earlier checks. For an anonymous caller no vote lookup is sent
  and the duplicate error is never returned; the vote is recorded whenever the request
  passes the earlier checks and the insert works, whatever anonymous votes exist.
\<close>

theorem vote_checks_by_caller:
  "(votes (snd (submitVote e pollId optionIndex b)) \<noteq> votes b \<longrightarrow>
      passes_poll_checks e pollId optionIndex b) \<and>
   (session e = Reply (Some u) False \<and> f_select_vote e = Works \<and>
    votes_of (trim pollId) (Some u) b = [v] \<longrightarrow>
      failed (fst (submitVote e pollId optionIndex b)) \<and>
      same_tables b (snd (submitVote e pollId optionIndex b)) \<and>
      (passes_poll_checks e pollId optionIndex b \<longrightarrow>
         fst (submitVote e pollId optionIndex b) = Error ''You have already voted on this poll'')) \<and>
   (session e = Reply None False \<longrightarrow>
      fst (submitVote e pollId optionIndex b) \<noteq> Error ''You have already voted on this poll'' \<and>
      (\<forall>i w. SelectVote i w \<notin> set (new_calls b (snd (submitVote e pollId optionIndex b)))) \<and>
      (passes_poll_checks e pollId optionIndex b \<and> f_insert_vote e = Works \<and>
       f_select_results e \<noteq> Throws \<longrightarrow>
         fst (submitVote e pollId optionIndex b) = Ok True \<and>
         length (votes (snd (submitVote e pollId optionIndex b))) = Suc (length (votes b))))"
proof (intro conjI impI allI)
  assume "votes (snd (submitVote e pollId optionIndex b)) \<noteq> votes b"
  then show "passes_poll_checks e pollId optionIndex b"
    by (rule submitVote_range_checked)
next
  assume a: "session e = Reply (Some u) False \<and> f_select_vote e = Works \<and>
    votes_of (trim pollId) (Some u) b = [v]"
  then show "failed (fst (submitVote e pollId optionIndex b))"
    by (simp add: submitVote_signed_in_voter(1))
  from a show "same_tables b (snd (submitVote e pollId optionIndex b))"
    by (simp add: submitVote_signed_in_voter(2))
  assume "passes_poll_checks e pollId optionIndex b"
  then obtain idx p os where c: "optionIndex = JNumber idx" "\<not> blank pollId"
    "uuidRegex (trim pollId)" "f_select_poll e = Works" "polls_with_id (trim pollId) b = [p]"
    "p_options p = Some os" "\<not> lt_zero idx" "\<not> ge_length idx (length os)"
    by (rule passes_poll_checksD)
  from a have a': "session e = Reply (Some u) False" "f_select_vote e = Works"
    "votes_of (trim pollId) (Some u) b = [v]"
    by simp_all
  show "fst (submitVote e pollId optionIndex b) = Error ''You have already voted on this poll''"
    unfolding c(1) by (rule submitVote_duplicate(1)[OF a'(1) c(2-8) a'(2,3)])
next
  assume a: "session e = Reply None False"
  then show "fst (submitVote e pollId optionIndex b) \<noteq> Error ''You have already voted on this poll''"
    by (rule submitVote_anonymous(1))
  show "SelectVote i w \<notin> set (new_calls b (snd (submitVote e pollId optionIndex b)))" for i w
    using a by (rule submitVote_anonymous(2))
  assume d: "passes_poll_checks e pollId optionIndex b \<and> f_insert_vote e = Works \<and>
       f_select_results e \<noteq> Throws"
  then obtain idx p os where c: "optionIndex = JNumber idx" "\<not> blank pollId"
    "uuidRegex (trim pollId)" "f_select_poll e = Works" "polls_with_id (trim pollId) b = [p]"
    "p_options p = Some os" "\<not> lt_zero idx" "\<not> ge_length idx (length os)"
    by (blast elim: passes_poll_checksD)
  have n: "None = None \<or> f_select_vote e = Errors \<or>
      (f_select_vote e = Works \<and> length (votes_of (trim pollId) None b) \<noteq> 1)"
    by simp
  from d have d': "f_insert_vote e = Works" "f_select_results e \<noteq> Throws"
    by simp_all
  note rec = submitVote_recorded[OF a c(2-8) n d']
  show "fst (submitVote e pollId optionIndex b) = Ok True"
    unfolding c(1) by (rule rec(1))
  show "length (votes (snd (submitVote e pollId optionIndex b))) = Suc (length (votes b))"
    unfolding c(1) by (simp add: rec(3))
qed

theorem vote_checks_by_caller_witness:
  "votes (snd (submitVote (env_as (Some alice)) pid0 (JNumber (Finite 0)) store0)) \<noteq> votes store0 \<and>
   passes_poll_checks (env_as (Some alice)) pid0 (JNumber (Finite 0)) store0 \<and>
   session (env_as (Some alice)) = Reply (Some alice) False \<and>
   f_select_vote (env_as (Some alice)) = Works \<and>
   votes_of (trim pid0) (Some alice) store_voted = [vote_alice] \<and>
   passes_poll_checks (env_as (Some alice)) pid0 (JNumber (Finite 1)) store_voted \<and>
   fst (submitVote (env_as (Some alice)) pid0 (JNumber (Finite 1)) store_voted) =
     Error ''You have already voted on this poll'' \<and>
   same_tables store_voted (snd (submitVote (env_as (Some alice)) pid0 (JNumber (Finite 1)) store_voted)) \<and>
   session (env_as None) = Reply None False \<and>
   passes_poll_checks (env_as None) pid0 (JNumber (Finite 1)) store_anon \<and>
   f_insert_vote (env_as None) = Works \<and> f_select_results (env_as None) \<noteq> Throws \<and>
   fst (submitVote (env_as None) pid0 (JNumber (Finite 1)) store_anon) = Ok True \<and>
   length (votes (snd (submitVote (env_as None) pid0 (JNumber (Finite 1)) store_anon))) =
     Suc (length (votes store_anon))"
proof -
  have v0: "votes (snd (submitVote (env_as (Some alice)) pid0 (JNumber (Finite 0)) store0)) \<noteq> votes store0"
    using pid0_not_blank pid0_uuid
    by (simp add: submitVote_def Let_def pid0_trim env_as_def store0_def poll0_def
        auth_getUser_def select_poll_def select_vote_def insert_vote_def select_results_def)
  have e: "session (env_as (Some alice)) = Reply (Some alice) False"
    "f_select_vote (env_as (Some alice)) = Works" "session (env_as None) = Reply None False"
    "f_insert_vote (env_as None) = Works" "f_select_results (env_as None) \<noteq> Throws"
    by (simp_all add: env_as_def)
  have mine: "votes_of (trim pid0) (Some alice) store_voted = [vote_alice]"
    by (simp add: votes_of_def store_voted_def store0_def vote_alice_def pid0_trim)
  have p1: "passes_poll_checks (env_as (Some alice)) pid0 (JNumber (Finite 1)) store_voted"
    using pid0_not_blank pid0_uuid
    by (simp add: passes_poll_checks_def pid0_trim store_voted_lookup) (simp add: env_as_def poll0_def)
  have p2: "passes_poll_checks (env_as None) pid0 (JNumber (Finite 1)) store_anon"
    using pid0_not_blank pid0_uuid
    by (simp add: passes_poll_checks_def pid0_trim store_anon_lookup) (simp add: env_as_def poll0_def)
  from vote_checks_by_caller[of "env_as (Some alice)" pid0 "JNumber (Finite 0)" store0] v0
  have a: "passes_poll_checks (env_as (Some alice)) pid0 (JNumber (Finite 0)) store0"
    by blast
  from vote_checks_by_caller[of "env_as (Some alice)" pid0 "JNumber (Finite 1)" store_voted alice vote_alice]
    e(1,2) mine p1
  have b: "fst (submitVote (env_as (Some alice)) pid0 (JNumber (Finite 1)) store_voted) =
      Error ''You have already voted on this poll'' \<and>
    same_tables store_voted (snd (submitVote (env_as (Some alice)) pid0 (JNumber (Finite 1)) store_voted))"
    by blast
  from vote_checks_by_caller[of "env_as None" pid0 "JNumber (Finite 1)" store_anon] e(3,4,5) p2
  have c: "fst (submitVote (env_as None) pid0 (JNumber (Finite 1)) store_anon) = Ok True \<and>
    length (votes (snd (submitVote (env_as None) pid0 (JNumber (Finite 1)) store_anon))) =
      Suc (length (votes store_anon))"
    by blast
  from v0 a e mine p1 p2 b c show ?thesis by blast
qed

section \<open>Cascading delete\<close>

text \<open>
  Claim C4. The owner deletes a poll that the lookup finds. The action first asks for the
  votes of the poll to be deleted and only then for the poll. If the deletion of the votes
  answers with an error, that failure is returned, no request to delete the poll is sent
  and both tables are as before; the same holds when it raises. If it works, the request
  to delete the poll follows it, and when that works too the action succeeds and the poll
  is gone.
\<close>

theorem cascade_stops_when_votes_stay:
  assumes "session e = Reply (Some u) False" and "\<not> blank ident" and "uuidRegex (trim ident)"
      and "f_select_poll e = Works" and "polls_with_id (trim ident) b = [p]" and "p_user_id p = u"
  shows "(f_delete_votes e = Errors \<longrightarrow>
            fst (deletePoll e ident b) = Error ''Failed to delete poll votes'' \<and>
            same_tables b (snd (deletePoll e ident b)) \<and>
            calls (snd (deletePoll e ident b)) =
              calls b @ [GetUser, SelectPoll (trim ident), DeleteVotes (trim ident)]) \<and>
         (f_delete_votes e = Throws \<longrightarrow>
            fst (deletePoll e ident b) = Error ''An unexpected error occurred'' \<and>
            same_tables b (snd (deletePoll e ident b)) \<and>
            calls (snd (deletePoll e ident b)) =
              calls b @ [GetUser, SelectPoll (trim ident), DeleteVotes (trim ident)]) \<and>
         (f_delete_votes e = Works \<longrightarrow>
            calls (snd (deletePoll e ident b)) =
              calls b @ [GetUser, SelectPoll (trim ident), DeleteVotes (trim ident),
                         DeletePoll (trim ident) u] \<and>
            votes (snd (deletePoll e ident b)) = filter (\<lambda>v. v_poll_id v \<noteq> trim ident) (votes b) \<and>
            (f_delete_poll e = Works \<longrightarrow>
               fst (deletePoll e ident b) = Ok True \<and>
               polls (snd (deletePoll e ident b)) =
                 filter (\<lambda>q. \<not> (p_id q = trim ident \<and> p_user_id q = u)) (polls b)))"
  using assms
  by (auto simp: deletePoll_def Let_def auth_getUser_def select_poll_def polls_with_id_def
      delete_votes_def delete_poll_def same_tables_def split: fault.splits)


theorem cascade_stops_when_votes_stay_witness:
  "session (env_as (Some bob)) = Reply (Some bob) False \<and> \<not> blank pid0 \<and> uuidRegex (trim pid0) \<and>
   polls_with_id (trim pid0) store_voted = [poll0] \<and> p_user_id poll0 = bob \<and>
   fst (deletePoll ((env_as (Some bob))\<lparr>f_delete_votes := Errors\<rparr>) pid0 store_voted) =
     Error ''Failed to delete poll votes'' \<and>
   same_tables store_voted
     (snd (deletePoll ((env_as (Some bob))\<lparr>f_delete_votes := Errors\<rparr>) pid0 store_voted)) \<and>
   fst (deletePoll (env_as (Some bob)) pid0 store_voted) = Ok True \<and>
   calls (snd (deletePoll (env_as (Some bob)) pid0 store_voted)) =
     [GetUser, SelectPoll pid0, DeleteVotes pid0, DeletePoll pid0 bob] \<and>
   votes (snd (deletePoll (env_as (Some bob)) pid0 store_voted)) = [] \<and>
   polls (snd (deletePoll (env_as (Some bob)) pid0 store_voted)) = []"
proof -
  let ?e = "(env_as (Some bob))\<lparr>f_delete_votes := Errors\<rparr>"
  have h: "session ?e = Reply (Some bob) False" "f_select_poll ?e = Works"
    "f_delete_votes ?e = Errors" "session (env_as (Some bob)) = Reply (Some bob) False"
    "f_select_poll (env_as (Some bob)) = Works" "f_delete_votes (env_as (Some bob)) = Works"
    "f_delete_poll (env_as (Some bob)) = Works"
    by (simp_all add: env_as_def)
  have u: "uuidRegex (trim pid0)" "polls_with_id (trim pid0) store_voted = [poll0]"
    "p_user_id poll0 = bob"
    by (simp_all add: pid0_trim pid0_uuid store_voted_lookup poll0_def)
  have t: "filter (\<lambda>v. v_poll_id v \<noteq> trim pid0) (votes store_voted) = []"
    "filter (\<lambda>q. \<not> (p_id q = trim pid0 \<and> p_user_id q = bob)) (polls store_voted) = []"
    "calls store_voted = []"
    by (simp_all add: pid0_trim store_voted_def store0_def vote_alice_def poll0_def)
  from cascade_stops_when_votes_stay[OF h(1) pid0_not_blank u(1) h(2) u(2,3)] h(3)
  have a: "fst (deletePoll ?e pid0 store_voted) = Error ''Failed to delete poll votes'' \<and>
      same_tables store_voted (snd (deletePoll ?e pid0 store_voted))"
    by blast
  from cascade_stops_when_votes_stay[OF h(4) pid0_not_blank u(1) h(5) u(2,3)] h(6,7) t
  have b: "fst (deletePoll (env_as (Some bob)) pid0 store_voted) = Ok True \<and>
      calls (snd (deletePoll (env_as (Some bob)) pid0 store_voted)) =
        [GetUser, SelectPoll pid0, DeleteVotes pid0, DeletePoll pid0 bob] \<and>
      votes (snd (deletePoll (env_as (Some bob)) pid0 store_voted)) = [] \<and>
      polls (snd (deletePoll (env_as (Some bob)) pid0 store_voted)) = []"
    by (simp add: pid0_trim)
  from a b h(4) pid0_not_blank u show ?thesis by blast
qed


section \<open>What a refusal tells the caller\<close>

lemma single_none [simp]: "single [] = Reply None True"
  by (simp add: single_def)

lemma store_empty_lookup: "polls_with_id i store_empty = []"
  by (simp add: polls_with_id_def store_empty_def)

lemma form0_question: "get form0 ''question'' = Some (Text (js ''Best colour?''))"
  by (simp add: form0_def get_def)

lemma deletePoll_refusals:
  assumes "session e = Reply (Some u) False" "f_select_poll e = Works"
      and "\<not> blank ident" "uuidRegex (trim ident)"
  shows "polls_with_id (trim ident) b = [p] \<Longrightarrow> p_user_id p \<noteq> u \<Longrightarrow>
           fst (deletePoll e ident b) = Error ''You do not have permission to delete this poll''"
    and "polls_with_id (trim ident) b = [] \<Longrightarrow> fst (deletePoll e ident b) = Error ''Poll not found''"
  using assms
  by (simp_all add: deletePoll_def Let_def auth_getUser_def select_poll_def polls_with_id_def)

lemma updatePoll_refusals:
  assumes "session e = Reply (Some u) False" "f_select_poll e = Works"
      and "\<not> blank pollId" "update_form_accepted fd"
  shows "polls_with_id pollId b = [p] \<Longrightarrow> p_user_id p \<noteq> u \<Longrightarrow>
           fst (updatePoll e pollId fd b) = Error ''You do not have permission to update this poll''"
    and "polls_with_id pollId b = [] \<Longrightarrow> fst (updatePoll e pollId fd b) = Error ''Poll not found''"
  using assms
  by (auto simp: updatePoll_def update_form_accepted_def Let_def auth_getUser_def select_poll_def
      polls_with_id_def split: option.splits entry.splits)

text \<open>
  Claim C8 as stated fails: in the scenario the first user asks to delete, and to update,
  the poll of the second user and is told that permission is missing; asked for the same
  id on an empty table, the actions answer that the poll was not found. The two answers
  differ.
\<close>

theorem refusal_tells_owned_from_missing_counterexample:
  "fst (deletePoll (env_as (Some alice)) pid0 store0) =
     Error ''You do not have permission to delete this poll'' \<and>
   fst (deletePoll (env_as (Some alice)) pid0 store_empty) = Error ''Poll not found'' \<and>
   fst (deletePoll (env_as (Some alice)) pid0 store0) \<noteq>
     fst (deletePoll (env_as (Some alice)) pid0 store_empty) \<and>
   fst (updatePoll (env_as (Some alice)) pid0 form0 store0) =
     Error ''You do not have permission to update this poll'' \<and>
   fst (updatePoll (env_as (Some alice)) pid0 form0 store_empty) = Error ''Poll not found'' \<and>
   fst (updatePoll (env_as (Some alice)) pid0 form0 store0) \<noteq>
     fst (updatePoll (env_as (Some alice)) pid0 form0 store_empty)"
proof -
  have e: "session (env_as (Some alice)) = Reply (Some alice) False"
    "f_select_poll (env_as (Some alice)) = Works"
    by (simp_all add: env_as_def)
  have u: "uuidRegex (trim pid0)" "polls_with_id (trim pid0) store0 = [poll0]"
    "polls_with_id pid0 store0 = [poll0]" "p_user_id poll0 \<noteq> alice"
    using alice_not_bob by (simp_all add: pid0_trim pid0_uuid store0_lookup poll0_def)
  have a: "fst (deletePoll (env_as (Some alice)) pid0 store0) =
     Error ''You do not have permission to delete this poll''"
    by (rule deletePoll_refusals(1)[OF e pid0_not_blank u(1) u(2) u(4)])
  have b: "fst (deletePoll (env_as (Some alice)) pid0 store_empty) = Error ''Poll not found''"
    by (rule deletePoll_refusals(2)[OF e pid0_not_blank u(1) store_empty_lookup])
  have c: "fst (updatePoll (env_as (Some alice)) pid0 form0 store0) =
     Error ''You do not have permission to update this poll''"
    by (rule updatePoll_refusals(1)[OF e pid0_not_blank form0_accepted u(3) u(4)])
  have d: "fst (updatePoll (env_as (Some alice)) pid0 form0 store_empty) = Error ''Poll not found''"
    by (rule updatePoll_refusals(2)[OF e pid0_not_blank form0_accepted store_empty_lookup])
  show ?thesis
    unfolding a b c d by simp
qed

text \<open>
  Claim C8, amended. For a signed-in caller whose request passes the input checks, with the
  lookup working: when the poll under the id belongs to someone else the error is the
  permission error of the action, and when no poll has the id the error is the not-found
  error. The errors name their cause, so the caller can tell the two cases apart.
\<close>

theorem refusal_names_its_cause:
  assumes "session e = Reply (Some u) False" and "f_select_poll e = Works"
  shows "(\<not> blank ident \<and> uuidRegex (trim ident) \<longrightarrow>
            (polls_with_id (trim ident) b = [p] \<and> p_user_id p \<noteq> u \<longrightarrow>
               fst (deletePoll e ident b) = Error ''You do not have permission to delete this poll'') \<and>
            (polls_with_id (trim ident) b = [] \<longrightarrow>
               fst (deletePoll e ident b) = Error ''Poll not found'')) \<and>
         (\<not> blank pollId \<and> update_form_accepted fd \<longrightarrow>
            (polls_with_id pollId b = [p] \<and> p_user_id p \<noteq> u \<longrightarrow>
               fst (updatePoll e pollId fd b) = Error ''You do not have permission to update this poll'') \<and>
            (polls_with_id pollId b = [] \<longrightarrow>
               fst (updatePoll e pollId fd b) = Error ''Poll not found''))"
proof (intro conjI impI)
  assume v: "\<not> blank ident \<and> uuidRegex (trim ident)"
  then have v': "\<not> blank ident" "uuidRegex (trim ident)"
    by simp_all
  show "fst (deletePoll e ident b) = Error ''You do not have permission to delete this poll''"
    if "polls_with_id (trim ident) b = [p] \<and> p_user_id p \<noteq> u"
    using that deletePoll_refusals(1)[OF assms v'] by blast
  show "fst (deletePoll e ident b) = Error ''Poll not found''"
    if "polls_with_id (trim ident) b = []"
    using that by (rule deletePoll_refusals(2)[OF assms v'])
next
  assume v: "\<not> blank pollId \<and> update_form_accepted fd"
  then have v': "\<not> blank pollId" "update_form_accepted fd"
    by simp_all
  show "fst (updatePoll e pollId fd b) = Error ''You do not have permission to update this poll''"
    if "polls_with_id pollId b = [p] \<and> p_user_id p \<noteq> u"
    using that updatePoll_refusals(1)[OF assms v'] by blast
  show "fst (updatePoll e pollId fd b) = Error ''Poll not found''"
    if "polls_with_id pollId b = []"
    using that by (rule updatePoll_refusals(2)[OF assms v'])
qed

theorem refusal_names_its_cause_witness:
  "session (env_as (Some alice)) = Reply (Some alice) False \<and>
   f_select_poll (env_as (Some alice)) = Works \<and> \<not> blank pid0 \<and> uuidRegex (trim pid0) \<and>
   update_form_accepted form0 \<and> polls_with_id (trim pid0) store0 = [poll0] \<and>
   polls_with_id pid0 store0 = [poll0] \<and> p_user_id poll0 \<noteq> alice \<and>
   polls_with_id (trim pid0) store_empty = [] \<and> polls_with_id pid0 store_empty = [] \<and>
   fst (deletePoll (env_as (Some alice)) pid0 store0) =
     Error ''You do not have permission to delete this poll'' \<and>
   fst (deletePoll (env_as (Some alice)) pid0 store_empty) = Error ''Poll not found'' \<and>
   fst (updatePoll (env_as (Some alice)) pid0 form0 store0) =
     Error ''You do not have permission to update this poll'' \<and>
   fst (updatePoll (env_as (Some alice)) pid0 form0 store_empty) = Error ''Poll not found''"
proof -
  have e: "session (env_as (Some alice)) = Reply (Some alice) False"
    "f_select_poll (env_as (Some alice)) = Works"
    by (simp_all add: env_as_def)
  have u: "uuidRegex (trim pid0)" "polls_with_id (trim pid0) store0 = [poll0]"
    "polls_with_id pid0 store0 = [poll0]" "p_user_id poll0 \<noteq> alice"
    using alice_not_bob by (simp_all add: pid0_trim pid0_uuid store0_lookup poll0_def)
  from refusal_names_its_cause[OF e, where ident = pid0 and b = store0 and p = poll0
        and pollId = pid0 and fd = form0]
    refusal_names_its_cause[OF e, where ident = pid0 and b = store_empty and p = poll0
        and pollId = pid0 and fd = form0]
    e u pid0_not_blank form0_accepted store_empty_lookup
  show ?thesis by simp
qed

section \<open>Input checks of the actions\<close>

lemma form21_options:
  "form_options form21 = map (\<lambda>c. [of_char c]) ''abcdefghijklmnopqrstu''"
  by (simp add: form_options_def form21_def getAll_def trim_def is_space_def)

lemma form21_question: "get form21 ''question'' = Some (Text (js ''Which letter?''))"
  by (simp add: form21_def get_def)

lemma form21_distinct: "\<not> has_duplicates (form_options form21)"
  by (simp add: form21_options has_duplicates_def)

text \<open>
  Claim C5 does not hold for \<open>updatePoll\<close>. The form of the scenario has twenty-one
  different options. \<open>createPoll\<close> rejects it with the error for too many options;
  \<open>updatePoll\<close>, called by the owner, accepts it and stores all twenty-one options.
\<close>

theorem update_accepts_twenty_one_options:
  "length (form_options form21) = 21 \<and>
   fst (createPoll (env_as (Some bob)) form21 store0) = Error ''Maximum of 20 options allowed'' \<and>
   fst (updatePoll (env_as (Some bob)) pid0 form21 store0) = Ok () \<and>
   map p_options (polls (snd (updatePoll (env_as (Some bob)) pid0 form21 store0))) =
     [Some (form_options form21)]"
proof -
  have q: "\<not> blank (js ''Which letter?'')"
    by (simp add: blank_def trim_def js_def is_space_def)
  have n: "length (form_options form21) = 21"
    by (simp add: form21_options)
  have t: "map trim (form_options form21) = form_options form21"
    by (simp add: form21_options trim_def is_space_def)
  have c: "fst (createPoll (env_as (Some bob)) form21 store0) = Error ''Maximum of 20 options allowed''"
    using q n form21_distinct by (simp add: createPoll_def form21_question Let_def)
  have "updatePoll (env_as (Some bob)) pid0 form21 store0 =
        (Ok (), logged (UpdatePoll pid0 bob) ((logged (SelectPoll pid0) (logged GetUser store0))
           \<lparr>polls := [poll0\<lparr>p_question := trim (js ''Which letter?''),
                             p_options := Some (form_options form21)\<rparr>]\<rparr>))"
    using q n form21_distinct pid0_not_blank
    by (simp add: updatePoll_def form21_question Let_def t auth_getUser_def select_poll_def
        update_poll_def env_as_def store0_def poll0_def)
  with n c show ?thesis by simp
qed

lemma bad_id_facts: "\<not> uuidRegex bad_id" "trim bad_id = bad_id" "\<not> blank bad_id"
  by (simp_all add: bad_id_def uuidRegex_def blank_def trim_def js_def is_hex_def is_space_def)

text \<open>
  Claim C6 does not hold for \<open>updatePoll\<close>. For an id that is not of the UUID shape,
  \<open>deletePoll\<close> returns the format error without sending any request, while
  \<open>updatePoll\<close> asks the identity service and looks the id up in the table, and reports
  that the poll was not found.
\<close>

theorem update_takes_malformed_id:
  "\<not> uuidRegex bad_id \<and>
   deletePoll (env_as (Some bob)) bad_id store0 = (Error ''Invalid poll ID format'', store0) \<and>
   fst (updatePoll (env_as (Some bob)) bad_id form0 store0) = Error ''Poll not found'' \<and>
   calls (snd (updatePoll (env_as (Some bob)) bad_id form0 store0)) = [GetUser, SelectPoll bad_id]"
proof -
  have d: "deletePoll (env_as (Some bob)) bad_id store0 = (Error ''Invalid poll ID format'', store0)"
    using bad_id_facts by (simp add: deletePoll_def Let_def)
  have ne: "pid0 \<noteq> bad_id"
    by (simp add: pid0_def bad_id_def js_def)
  have "updatePoll (env_as (Some bob)) bad_id form0 store0 =
        (Error ''Poll not found'', logged (SelectPoll bad_id) (logged GetUser store0))"
    using bad_id_facts form0_accepted ne
    by (simp add: updatePoll_def update_form_accepted_def form0_question Let_def
        auth_getUser_def select_poll_def env_as_def store0_def poll0_def)
  with d bad_id_facts(1) show ?thesis by (simp add: store0_def)
qed

text \<open>
  Claim C7 does not hold for an index that is a number but not an integer. On the poll with
  two options the index \<open>1/2\<close> is neither below \<open>0\<close> nor at or above \<open>2\<close>, so the vote is
  stored with that index and the action succeeds; the same happens for a not-a-number, for
  which both comparisons are false.
\<close>

theorem fractional_index_is_recorded:
  "fst (submitVote (env_as (Some alice)) pid0 (JNumber (Finite (1 / 2))) store0) = Ok True \<and>
   map v_option_index (votes (snd (submitVote (env_as (Some alice)) pid0
                                      (JNumber (Finite (1 / 2))) store0))) = [Finite (1 / 2)] \<and>
   fst (submitVote (env_as (Some alice)) pid0 (JNumber NaN) store0) = Ok True \<and>
   map v_option_index (votes (snd (submitVote (env_as (Some alice)) pid0 (JNumber NaN) store0))) =
     [NaN]"
proof -
  have e: "session (env_as (Some alice)) = Reply (Some alice) False"
    "f_select_poll (env_as (Some alice)) = Works" "f_insert_vote (env_as (Some alice)) = Works"
    "f_select_results (env_as (Some alice)) \<noteq> Throws"
    by (simp_all add: env_as_def)
  have u: "uuidRegex (trim pid0)" "polls_with_id (trim pid0) store0 = [poll0]"
    "p_options poll0 = Some [js ''Red'', js ''Blue'']"
    by (simp_all add: pid0_trim pid0_uuid store0_lookup poll0_def)
  have n: "Some alice = None \<or> f_select_vote (env_as (Some alice)) = Errors \<or>
      (f_select_vote (env_as (Some alice)) = Works \<and>
       length (votes_of (trim pid0) (Some alice) store0) \<noteq> 1)"
    by (simp add: env_as_def votes_of_def store0_def)
  have h: "\<not> lt_zero (Finite (1 / 2))" "\<not> ge_length (Finite (1 / 2)) (length [js ''Red'', js ''Blue''])"
    "\<not> lt_zero NaN" "\<not> ge_length NaN (length [js ''Red'', js ''Blue''])"
    by simp_all
  note half = submitVote_recorded[OF e(1) pid0_not_blank u(1) e(2) u(2,3) h(1,2) n e(3,4)]
  note nan = submitVote_recorded[OF e(1) pid0_not_blank u(1) e(2) u(2,3) h(3,4) n e(3,4)]
  have v: "votes store0 = []"
    by (simp add: store0_def)
  show ?thesis
    by (simp add: half(1,3) nan(1,3) v)
qed


section \<open>Anti-forgery tokens\<close>

lemma PollCreateForm_action_storage:
  "(fst (PollCreateForm_action e newToken fd st b) = View None True \<longrightarrow>
      fst (snd (PollCreateForm_action e newToken fd st b)) = st(''pollCsrfToken'' \<mapsto> newToken)) \<and>
   (fst (PollCreateForm_action e newToken fd st b) \<noteq> View None True \<longrightarrow>
      fst (snd (PollCreateForm_action e newToken fd st b)) = st) \<and>
   (\<not> strict_eq (get fd ''csrfToken'') (st ''pollCsrfToken'') \<longrightarrow>
      PollCreateForm_action e newToken fd st b = (security_failure, st, b))"
  by (simp add: PollCreateForm_action_def security_failure_def Let_def
      split: outcome.split prod.split)

lemma handleSubmit_storage:
  "(fst (handleSubmit e newToken fd st b) = View None True \<longrightarrow>
      fst (snd (handleSubmit e newToken fd st b)) = st(''csrfToken'' \<mapsto> newToken)) \<and>
   (fst (handleSubmit e newToken fd st b) \<noteq> View None True \<longrightarrow>
      fst (snd (handleSubmit e newToken fd st b)) = st) \<and>
   (\<not> strict_eq (get fd ''csrfToken'') (st ''csrfToken'') \<longrightarrow>
      fst (handleSubmit e newToken fd st b) \<noteq> View None True \<and>
      snd (handleSubmit e newToken fd st b) = (st, b))"
  by (simp add: handleSubmit_def security_failure_def Let_def
      split: outcome.split prod.split option.split entry.split)

lemma tok_facts: "tok \<noteq> tok_new" "js ''guess'' \<noteq> tok"
  by (simp_all add: tok_def tok_new_def js_def)

lemma form_good_fields:
  "get form_good ''question'' = Some (Text (js ''Best colour?''))"
  "get form_good ''csrfToken'' = Some (Text tok)"
  "getAll form_good ''options'' = [Text (js ''Green''), Text (js '' Yellow '')]"
  "get form_forged ''csrfToken'' = Some (Text (js ''guess''))"
  by (simp_all add: form_good_def form_forged_def form0_def get_def getAll_def)

lemma scenario_strings:
  "\<not> blank (js ''Best colour?'')" "\<not> blank (js ''Green'')" "\<not> blank (js '' Yellow '')"
  "trim (js ''Green'') = js ''Green''" "trim (js '' Yellow '') = js ''Yellow''"
  "js ''Green'' \<noteq> js ''Yellow''"
  by (simp_all add: blank_def trim_def js_def is_space_def)

lemma form_good_valid: "validateForm form_good = Ok ()"
  by (simp add: validateForm_def form_good_fields scenario_strings Let_def)

lemma form_good_options: "form_options form_good = [js ''Green'', js ''Yellow'']"
  using scenario_strings(4,5)
  by (simp add: form_options_def form_good_fields) (simp add: js_def)

lemma createPoll_form_good:
  "createPoll (env_as None) form_good b =
     (Error ''You must be logged in to create a poll'', logged GetUser b)"
  "fst (createPoll (env_as (Some alice)) form_good b) = Ok (Some pid1)"
  using scenario_strings(1,6)
  by (simp_all add: createPoll_def form_good_fields form_good_options has_duplicates_def Let_def
      auth_getUser_def insert_poll_def env_as_def)

text \<open>
  Claim C9 as stated fails. In the scenario a submission carrying a guess is refused, and
  the stored token is afterwards still the one issued at mount, not the next value of the
  random source. A submission carrying the stored token by a user who is not signed in
  passes the token check and is refused by \<open>createPoll\<close>; the token stays, and the same
  submission, sent again once the user is signed in, passes the token check and succeeds.
\<close>

theorem token_outlives_failed_attempts_counterexample:
  "session0 ''pollCsrfToken'' = Some tok \<and> tok \<noteq> tok_new \<and>
   PollCreateForm_action (env_as (Some alice)) tok_new form_forged session0 store0 =
     (security_failure, session0, store0) \<and>
   fst (PollCreateForm_action (env_as None) tok_new form_good session0 store0) =
     View (Some ''You must be logged in to create a poll'') False \<and>
   fst (snd (PollCreateForm_action (env_as None) tok_new form_good session0 store0)) = session0 \<and>
   fst (PollCreateForm_action (env_as (Some alice)) tok_new form_good session0
         (snd (snd (PollCreateForm_action (env_as None) tok_new form_good session0 store0)))) =
     View None True"
proof -
  have s: "session0 ''pollCsrfToken'' = Some tok"
    by (simp add: session0_def PollCreateForm_mount_def)
  have a: "PollCreateForm_action (env_as (Some alice)) tok_new form_forged session0 store0 =
     (security_failure, session0, store0)"
    using tok_facts(2)
    by (simp add: PollCreateForm_action_def security_failure_def form_good_fields s)
  have b: "PollCreateForm_action (env_as None) tok_new form_good session0 store0 =
     (View (Some ''You must be logged in to create a poll'') False, session0, logged GetUser store0)"
    by (simp add: PollCreateForm_action_def form_good_fields s form_good_valid createPoll_form_good)
  have c: "fst (PollCreateForm_action (env_as (Some alice)) tok_new form_good session0 b') = View None True" for b'
    using createPoll_form_good(2)[of b']
    by (cases "createPoll (env_as (Some alice)) form_good b'")
      (simp add: PollCreateForm_action_def form_good_fields s form_good_valid)
  show ?thesis
    by (simp add: s tok_facts(1) a b c)
qed

text \<open>
  Claim C9, amended. For the poll form and for the login form: when a submission ends in
  success, the stored token is replaced by the value newly drawn from the random source;
  in every other case, a refused token included, the session storage is left as it was.
  A submission whose token is not the stored one reaches no service and leaves the tables
  as they were; the poll form then shows the security message.
\<close>

theorem token_rotates_on_success_only:
  "((fst (PollCreateForm_action e newToken fd st b) = View None True \<longrightarrow>
       fst (snd (PollCreateForm_action e newToken fd st b)) = st(''pollCsrfToken'' \<mapsto> newToken)) \<and>
    (fst (PollCreateForm_action e newToken fd st b) \<noteq> View None True \<longrightarrow>
       fst (snd (PollCreateForm_action e newToken fd st b)) = st) \<and>
    (\<not> strict_eq (get fd ''csrfToken'') (st ''pollCsrfToken'') \<longrightarrow>
       PollCreateForm_action e newToken fd st b = (security_failure, st, b))) \<and>
   ((fst (handleSubmit e newToken fd st b) = View None True \<longrightarrow>
       fst (snd (handleSubmit e newToken fd st b)) = st(''csrfToken'' \<mapsto> newToken)) \<and>
    (fst (handleSubmit e newToken fd st b) \<noteq> View None True \<longrightarrow>
       fst (snd (handleSubmit e newToken fd st b)) = st) \<and>
    (\<not> strict_eq (get fd ''csrfToken'') (st ''csrfToken'') \<longrightarrow>
       fst (handleSubmit e newToken fd st b) \<noteq> View None True \<and>
       snd (handleSubmit e newToken fd st b) = (st, b)))"
  using PollCreateForm_action_storage[of e newToken fd st b] handleSubmit_storage[of e newToken fd st b]
  by blast


lemma login_fields:
  "get login_good ''email'' = Some (Text (js ''alice@example.org''))"
  "get login_good ''password'' = Some (Text (js ''correct horse''))"
  "get login_good ''csrfToken'' = Some (Text tok)"
  "get login_forged ''email'' = Some (Text (js ''alice@example.org''))"
  "get login_forged ''password'' = Some (Text (js ''correct horse''))"
  "get login_forged ''csrfToken'' = Some (Text (js ''guess''))"
  by (simp_all add: login_good_def login_forged_def get_def)

lemma login_strings:
  "emailRegex (js ''alice@example.org'')" "\<not> blank (js ''correct horse'')"
  "js ''alice@example.org'' \<noteq> []" "js ''correct horse'' \<noteq> []"
  by (simp_all add: emailRegex_def plain_char_def blank_def trim_def js_def is_space_def)

theorem token_rotates_on_success_only_witness:
  "fst (PollCreateForm_action (env_as (Some alice)) tok_new form_good session0 store0) = View None True \<and>
   fst (snd (PollCreateForm_action (env_as (Some alice)) tok_new form_good session0 store0)) =
     session0(''pollCsrfToken'' \<mapsto> tok_new) \<and>
   fst (PollCreateForm_action (env_as None) tok_new form_good session0 store0) \<noteq> View None True \<and>
   fst (snd (PollCreateForm_action (env_as None) tok_new form_good session0 store0)) = session0 \<and>
   \<not> strict_eq (get form_forged ''csrfToken'') (session0 ''pollCsrfToken'') \<and>
   PollCreateForm_action (env_as (Some alice)) tok_new form_forged session0 store0 =
     (security_failure, session0, store0) \<and>
   fst (handleSubmit (env_as (Some alice)) tok_new login_good login_session0 store0) = View None True \<and>
   fst (snd (handleSubmit (env_as (Some alice)) tok_new login_good login_session0 store0)) =
     login_session0(''csrfToken'' \<mapsto> tok_new) \<and>
   \<not> strict_eq (get login_forged ''csrfToken'') (login_session0 ''csrfToken'') \<and>
   snd (handleSubmit (env_as (Some alice)) tok_new login_forged login_session0 store0) =
     (login_session0, store0)"
proof -
  have s: "session0 ''pollCsrfToken'' = Some tok" "login_session0 ''csrfToken'' = Some tok"
    by (simp_all add: session0_def PollCreateForm_mount_def login_session0_def LoginPage_mount_def)
  have ok: "fst (PollCreateForm_action (env_as (Some alice)) tok_new form_good session0 store0) = View None True"
    using createPoll_form_good(2)[of store0]
    by (cases "createPoll (env_as (Some alice)) form_good store0")
      (simp add: PollCreateForm_action_def form_good_fields s form_good_valid)
  have no: "fst (PollCreateForm_action (env_as None) tok_new form_good session0 store0) \<noteq> View None True"
    by (simp add: PollCreateForm_action_def form_good_fields s form_good_valid createPoll_form_good)
  have forged: "\<not> strict_eq (get form_forged ''csrfToken'') (session0 ''pollCsrfToken'')"
    "\<not> strict_eq (get login_forged ''csrfToken'') (login_session0 ''csrfToken'')"
    using tok_facts(2) by (simp_all add: form_good_fields login_fields s)
  have lok: "fst (handleSubmit (env_as (Some alice)) tok_new login_good login_session0 store0) = View None True"
    using login_strings
    by (simp add: handleSubmit_def login_fields s Let_def login_def sign_in_def env_as_def)
  have r1: "fst (snd (PollCreateForm_action (env_as (Some alice)) tok_new form_good session0 store0)) =
      session0(''pollCsrfToken'' \<mapsto> tok_new)"
    using token_rotates_on_success_only[of "env_as (Some alice)" tok_new form_good session0 store0] ok
    by simp
  have r2: "fst (snd (PollCreateForm_action (env_as None) tok_new form_good session0 store0)) = session0"
    using token_rotates_on_success_only[of "env_as None" tok_new form_good session0 store0] no
    by simp
  have r3: "PollCreateForm_action (env_as (Some alice)) tok_new form_forged session0 store0 =
      (security_failure, session0, store0)"
    using token_rotates_on_success_only[of "env_as (Some alice)" tok_new form_forged session0 store0]
      forged(1)
    by simp
  have r4: "fst (snd (handleSubmit (env_as (Some alice)) tok_new login_good login_session0 store0)) =
      login_session0(''csrfToken'' \<mapsto> tok_new)"
    using token_rotates_on_success_only[of "env_as (Some alice)" tok_new login_good login_session0 store0]
      lok
    by simp
  have r5: "snd (handleSubmit (env_as (Some alice)) tok_new login_forged login_session0 store0) =
      (login_session0, store0)"
    using token_rotates_on_success_only[of "env_as (Some alice)" tok_new login_forged login_session0 store0]
      forged(2)
    by simp
  show ?thesis
    using ok no forged lok r1 r2 r3 r4 r5 by (intro conjI)
qed


section \<open>Further properties of the input checks\<close>

lemma hex_groups_step:
  "hex_groups (n # m # ns) s \<longleftrightarrow>
     (\<exists>g rest. s = g @ 45 # rest \<and> length g = n \<and> list_all is_hex g \<and> hex_groups (m # ns) rest)"
proof
  assume h: "hex_groups (n # m # ns) s"
  then obtain c rest where d: "drop n s = c # rest" "c = 45" "hex_groups (m # ns) rest"
    by (auto split: list.splits)
  from h have l: "length (take n s) = n" "list_all is_hex (take n s)"
    by simp_all
  have "s = take n s @ drop n s"
    by simp
  with d have "s = take n s @ 45 # rest"
    by simp
  with l d(3) have "s = take n s @ 45 # rest \<and> length (take n s) = n \<and>
      list_all is_hex (take n s) \<and> hex_groups (m # ns) rest"
    by (intro conjI)
  then show "\<exists>g rest. s = g @ 45 # rest \<and> length g = n \<and> list_all is_hex g \<and> hex_groups (m # ns) rest"
    by (intro exI)
next
  assume "\<exists>g rest. s = g @ 45 # rest \<and> length g = n \<and> list_all is_hex g \<and> hex_groups (m # ns) rest"
  then show "hex_groups (n # m # ns) s"
    by auto
qed

text \<open>
  The matcher for the id is the regular expression read as a pattern: five groups of 8, 4,
  4, 4 and 12 hexadecimal digits with a hyphen between neighbours, and nothing besides.
\<close>

theorem uuidRegex_shape:
  "uuidRegex s \<longleftrightarrow>
     (\<exists>g1 g2 g3 g4 g5.
        s = g1 @ 45 # g2 @ 45 # g3 @ 45 # g4 @ 45 # g5 \<and>
        length g1 = 8 \<and> length g2 = 4 \<and> length g3 = 4 \<and> length g4 = 4 \<and> length g5 = 12 \<and>
        list_all is_hex (g1 @ g2 @ g3 @ g4 @ g5))"
  unfolding uuidRegex_def hex_groups_step
  by (simp only: hex_groups.simps(2) list_all_append) blast

text \<open>
  What holds of the count limit: \<open>createPoll\<close> never stores a form with more than twenty
  options and sends no request for it; the error is the one for too many options once the
  question is given and the options are all different.
\<close>

theorem createPoll_rejects_too_many_options:
  assumes "20 < length (form_options fd)"
  shows "failed (fst (createPoll e fd b)) \<and> snd (createPoll e fd b) = b \<and>
         ((case get fd ''question'' of Some (Text q) \<Rightarrow> \<not> blank q | _ \<Rightarrow> False) \<and>
          \<not> has_duplicates (form_options fd) \<longrightarrow>
            fst (createPoll e fd b) = Error ''Maximum of 20 options allowed'')"
  using assms
  by (simp add: createPoll_def Let_def split: option.split entry.split)

theorem createPoll_rejects_too_many_options_witness:
  "20 < length (form_options form21) \<and>
   (case get form21 ''question'' of Some (Text q) \<Rightarrow> \<not> blank q | _ \<Rightarrow> False) \<and>
   \<not> has_duplicates (form_options form21) \<and>
   createPoll (env_as (Some bob)) form21 store0 = (Error ''Maximum of 20 options allowed'', store0)"
proof -
  have n: "20 < length (form_options form21)"
    by (simp add: form21_options)
  have q: "case get form21 ''question'' of Some (Text q) \<Rightarrow> \<not> blank q | _ \<Rightarrow> False"
    by (simp add: form21_question blank_def trim_def js_def is_space_def)
  from createPoll_rejects_too_many_options[OF n, of "env_as (Some bob)" store0] q form21_distinct
  have "fst (createPoll (env_as (Some bob)) form21 store0) = Error ''Maximum of 20 options allowed'' \<and>
      snd (createPoll (env_as (Some bob)) form21 store0) = store0"
    by simp
  then have "createPoll (env_as (Some bob)) form21 store0 = (Error ''Maximum of 20 options allowed'', store0)"
    by (simp add: prod_eq_iff)
  with n q form21_distinct show ?thesis by simp
qed

text \<open>
  What holds of the id check: \<open>deletePoll\<close> returns one of its two id errors for an id
  that, trimmed, is not of the UUID shape, and \<open>submitVote\<close> fails for it; neither sends
  a request.
\<close>

theorem malformed_id_stops_delete_and_vote:
  assumes "\<not> uuidRegex (trim ident)"
  shows "(deletePoll e ident b = (Error ''Invalid poll ID'', b) \<or>
          deletePoll e ident b = (Error ''Invalid poll ID format'', b)) \<and>
         failed (fst (submitVote e ident optionIndex b)) \<and> snd (submitVote e ident optionIndex b) = b"
  using assms
  by (simp add: deletePoll_def submitVote_def Let_def split: jsvalue.split)

theorem malformed_id_stops_delete_and_vote_witness:
  "\<not> uuidRegex (trim bad_id) \<and>
   deletePoll (env_as (Some bob)) bad_id store0 = (Error ''Invalid poll ID format'', store0) \<and>
   snd (submitVote (env_as (Some bob)) bad_id (JNumber (Finite 0)) store0) = store0"
proof -
  have h: "\<not> uuidRegex (trim bad_id)"
    by (simp add: bad_id_facts)
  from malformed_id_stops_delete_and_vote[OF h, of "env_as (Some bob)" store0 "JNumber (Finite 0)"]
    bad_id_facts(3) h
  show ?thesis by (simp add: deletePoll_def)
qed

text \<open>
  What holds of the index check: an index that is not a number, or is below \<open>0\<close>, is
  refused before any request is sent; an index at or above the number of options of the
  poll found is refused and nothing is stored.
\<close>

theorem invalid_index_is_refused:
  "(\<not> blank pollId \<and> (optionIndex = JOther \<or> (\<exists>idx. optionIndex = JNumber idx \<and> lt_zero idx)) \<longrightarrow>
      submitVote e pollId optionIndex b = (Error ''Invalid option selected'', b)) \<and>
   (\<not> blank pollId \<and> uuidRegex (trim pollId) \<and> f_select_poll e = Works \<and>
    polls_with_id (trim pollId) b = [p] \<and> p_options p = Some os \<and>
    optionIndex = JNumber idx \<and> ge_length idx (length os) \<longrightarrow>
      fst (submitVote e pollId optionIndex b) = Error ''Invalid option selected'' \<and>
      same_tables b (snd (submitVote e pollId optionIndex b)))"
  by (auto simp: submitVote_def Let_def select_poll_def polls_with_id_def)

theorem invalid_index_is_refused_witness:
  "\<not> blank pid0 \<and> lt_zero (Finite (- 1)) \<and>
   submitVote (env_as (Some alice)) pid0 (JNumber (Finite (- 1))) store0 =
     (Error ''Invalid option selected'', store0) \<and>
   submitVote (env_as (Some alice)) pid0 JOther store0 = (Error ''Invalid option selected'', store0) \<and>
   uuidRegex (trim pid0) \<and> f_select_poll (env_as (Some alice)) = Works \<and>
   polls_with_id (trim pid0) store0 = [poll0] \<and> p_options poll0 = Some [js ''Red'', js ''Blue''] \<and>
   ge_length (Finite 5) (length [js ''Red'', js ''Blue'']) \<and>
   fst (submitVote (env_as (Some alice)) pid0 (JNumber (Finite 5)) store0) =
     Error ''Invalid option selected''"
proof -
  have h: "uuidRegex (trim pid0)" "f_select_poll (env_as (Some alice)) = Works"
    "polls_with_id (trim pid0) store0 = [poll0]" "p_options poll0 = Some [js ''Red'', js ''Blue'']"
    "ge_length (Finite 5) (length [js ''Red'', js ''Blue''])" "lt_zero (Finite (- 1))"
    by (simp_all add: pid0_trim pid0_uuid env_as_def store0_lookup poll0_def)
  have a: "submitVote (env_as (Some alice)) pid0 (JNumber (Finite (- 1))) store0 =
     (Error ''Invalid option selected'', store0)"
    using invalid_index_is_refused[of pid0 "JNumber (Finite (- 1))" "env_as (Some alice)" store0]
      pid0_not_blank h(6)
    by simp
  have b: "submitVote (env_as (Some alice)) pid0 JOther store0 = (Error ''Invalid option selected'', store0)"
    using invalid_index_is_refused[of pid0 JOther "env_as (Some alice)" store0] pid0_not_blank
    by simp
  have c: "fst (submitVote (env_as (Some alice)) pid0 (JNumber (Finite 5)) store0) =
     Error ''Invalid option selected''"
    using invalid_index_is_refused[of pid0 "JNumber (Finite 5)" "env_as (Some alice)" store0 poll0
        "[js ''Red'', js ''Blue'']" "Finite 5"] pid0_not_blank h(1-5)
    by simp
  show ?thesis
    using pid0_not_blank h a b c by (intro conjI)
qed

text \<open>
  A form with a question and between two and twenty different options, sent by a signed-in
  user, is stored as a new poll of that user with the question and the options trimmed;
  the id the store assigned is returned.
\<close>

theorem createPoll_stores_trimmed_poll:
  assumes "get fd ''question'' = Some (Text q)" and "\<not> blank q"
      and "2 \<le> length (form_options fd)" and "length (form_options fd) \<le> 20"
      and "\<not> has_duplicates (form_options fd)"
      and "session e = Reply (Some u) False" and "f_insert_poll e = Works"
  shows "fst (createPoll e fd b) = Ok (Some (new_id e)) \<and>
         polls (snd (createPoll e fd b)) =
           polls b @ [\<lparr>p_id = new_id e, p_user_id = u, p_question = trim q,
                       p_options = Some (map trim (form_options fd)), p_created_at = now e\<rparr>] \<and>
         votes (snd (createPoll e fd b)) = votes b"
  using assms
  by (simp add: createPoll_def Let_def auth_getUser_def insert_poll_def)

theorem createPoll_stores_trimmed_poll_witness:
  "get form0 ''question'' = Some (Text (js ''Best colour?'')) \<and> \<not> blank (js ''Best colour?'') \<and>
   2 \<le> length (form_options form0) \<and> length (form_options form0) \<le> 20 \<and>
   \<not> has_duplicates (form_options form0) \<and>
   session (env_as (Some alice)) = Reply (Some alice) False \<and>
   f_insert_poll (env_as (Some alice)) = Works \<and>
   fst (createPoll (env_as (Some alice)) form0 store0) = Ok (Some pid1) \<and>
   map p_options (polls (snd (createPoll (env_as (Some alice)) form0 store0))) =
     [Some [js ''Red'', js ''Blue''], Some [js ''Green'', js ''Yellow'']]"
proof -
  have h: "2 \<le> length (form_options form0)" "length (form_options form0) \<le> 20"
    "\<not> has_duplicates (form_options form0)" "session (env_as (Some alice)) = Reply (Some alice) False"
    "f_insert_poll (env_as (Some alice)) = Works"
    using scenario_strings(6) by (simp_all add: form0_options has_duplicates_def env_as_def)
  have t: "map trim (form_options form0) = [js ''Green'', js ''Yellow'']"
    by (simp add: form0_options trim_def js_def is_space_def)
  from createPoll_stores_trimmed_poll[OF form0_question scenario_strings(1) h, of store0]
  have "fst (createPoll (env_as (Some alice)) form0 store0) = Ok (Some pid1) \<and>
   map p_options (polls (snd (createPoll (env_as (Some alice)) form0 store0))) =
     [Some [js ''Red'', js ''Blue''], Some [js ''Green'', js ''Yellow'']]"
    by (simp add: t) (simp add: env_as_def store0_def poll0_def)
  with form0_question scenario_strings(1) h show ?thesis by simp
qed


end
